theory Spec2Isabelle
  imports Complex_Main "HOL-Library.Sublist" "HOL-Library.Multiset"
begin

section \<open>Data model (types.ts)\<close>

text \<open>
  \<^verbatim>\<open>ReceiptData\<close> has four fields of type \<^verbatim>\<open>T | null\<close> and two optional ones.
  \<open>None\<close> stands for \<^verbatim>\<open>null\<close> (and, for the two optional fields, also for a missing
  key). A JavaScript number is modelled as an exact rational: the values \<^verbatim>\<open>NaN\<close> and
  \<^verbatim>\<open>Infinity\<close> and the rounding of double arithmetic are outside the model.
\<close>

record ReceiptData =
  transaction_name :: "string option"
  total_amount :: "rat option"
  transaction_date :: "string option"
  category :: "string option"
  client_or_prospect :: "string option"
  purpose :: "string option"

text \<open>The field \<^verbatim>\<open>id\<close> is named \<open>id'\<close> here, \<open>id\<close> being the identity function of HOL.\<close>

record SavedReceiptData = ReceiptData +
  id' :: int

section \<open>JavaScript values\<close>

text \<open>
  \<^verbatim>\<open>!s\<close> on a value of type \<^verbatim>\<open>string | null\<close>: true for \<^verbatim>\<open>null\<close> and for the empty
  string.
\<close>

definition falsy :: "string option \<Rightarrow> bool" where
  "falsy s = (s = None \<or> s = Some [])"

text \<open>\<^verbatim>\<open>s || d\<close> with a string default, and \<^verbatim>\<open>s || null\<close>.\<close>

definition or_else :: "string option \<Rightarrow> string \<Rightarrow> string" where
  "or_else s d = (case s of None \<Rightarrow> d | Some v \<Rightarrow> if v = [] then d else v)"

definition or_null :: "string option \<Rightarrow> string option" where
  "or_null s = (case s of None \<Rightarrow> None | Some v \<Rightarrow> if v = [] then None else Some v)"

text \<open>\<^verbatim>\<open>x || 0\<close> on a number or a missing value: \<^verbatim>\<open>null\<close>, \<^verbatim>\<open>undefined\<close> and \<^verbatim>\<open>0\<close> give 0.\<close>

definition or_zero :: "rat option \<Rightarrow> rat" where
  "or_zero x = (case x of None \<Rightarrow> 0 | Some v \<Rightarrow> if v = 0 then 0 else v)"

subsection \<open>Dates\<close>

text \<open>
  A \<^verbatim>\<open>Date\<close> is its time value: milliseconds since the epoch (UTC), or \<open>None\<close> for an
  Invalid Date, whose time value is \<^verbatim>\<open>NaN\<close>. What \<^verbatim>\<open>new Date(string)\<close> makes of a
  string is the engine's business (only the ISO formats are fixed by the language), so
  the parser is a parameter \<open>parse\<close> of every function that builds a date from a string.
  \<^verbatim>\<open>new Date(null)\<close> is the epoch: \<^verbatim>\<open>null\<close> converts to the number 0.
\<close>

type_synonym date_parser = "string \<Rightarrow> int option"

definition newDate :: "date_parser \<Rightarrow> string option \<Rightarrow> int option" where
  "newDate parse s = (case s of None \<Rightarrow> Some 0 | Some v \<Rightarrow> parse v)"

text \<open>\<^verbatim>\<open>new Date(r.transaction_date!).getTime()\<close>\<close>

definition getTime :: "date_parser \<Rightarrow> 'a ReceiptData_scheme \<Rightarrow> int option" where
  "getTime parse r = newDate parse (transaction_date r)"

subsection \<open>Time values and the calendar\<close>

text \<open>
  The day arithmetic of the language standard (ECMAScript, Time Values and Time Range):
  \<open>Day\<close>, \<open>TimeWithinDay\<close>, \<open>WeekDay\<close> (0 is Sunday), \<open>MakeTime\<close>, \<open>MakeDay\<close>,
  \<open>MakeDate\<close>.
\<close>

definition msPerDay :: int where
  "msPerDay = 86400000"

definition Day :: "int \<Rightarrow> int" where
  "Day t = t div msPerDay"

definition TimeWithinDay :: "int \<Rightarrow> int" where
  "TimeWithinDay t = t mod msPerDay"

definition WeekDay :: "int \<Rightarrow> int" where
  "WeekDay t = (Day t + 4) mod 7"

definition MakeTime :: "int \<Rightarrow> int \<Rightarrow> int \<Rightarrow> int \<Rightarrow> int" where
  "MakeTime h m s ms = h * 3600000 + m * 60000 + s * 1000 + ms"

definition MakeDate :: "int \<Rightarrow> int \<Rightarrow> int" where
  "MakeDate day time = day * msPerDay + time"

text \<open>
  The proleptic Gregorian calendar, in both directions between a day number (days since
  1970-01-01) and a civil date (year, month 1..12, day of the month), computed in eras of
  400 years that begin on a 1st of March.
\<close>

definition days_from_civil :: "int \<Rightarrow> int \<Rightarrow> int \<Rightarrow> int" where
  "days_from_civil y m d =
     (let y1 = (if m \<le> 2 then y - 1 else y);
          era = y1 div 400;
          yoe = y1 mod 400;
          mp = (if m > 2 then m - 3 else m + 9);
          doy = (153 * mp + 2) div 5 + d - 1;
          doe = yoe * 365 + yoe div 4 - yoe div 100 + doy
      in era * 146097 + doe - 719468)"

definition civil_from_days :: "int \<Rightarrow> int \<times> int \<times> int" where
  "civil_from_days z =
     (let z1 = z + 719468;
          era = z1 div 146097;
          doe = z1 mod 146097;
          yoe = (doe - doe div 1460 + doe div 36524 - doe div 146096) div 365;
          doy = doe - (365 * yoe + yoe div 4 - yoe div 100);
          mp = (5 * doy + 2) div 153;
          d = doy - (153 * mp + 2) div 5 + 1;
          m = (if mp < 10 then mp + 3 else mp - 9);
          y = yoe + era * 400 + (if m \<le> 2 then 1 else 0)
      in (y, m, d))"

definition YearFromTime :: "int \<Rightarrow> int" where
  "YearFromTime t = fst (civil_from_days (Day t))"

text \<open>Months count from 0, as in the language.\<close>

definition MonthFromTime :: "int \<Rightarrow> int" where
  "MonthFromTime t = fst (snd (civil_from_days (Day t))) - 1"

text \<open>
  \<open>MakeDay year month date\<close>: the day number of the first of the month, plus
  \<open>date - 1\<close>; a month outside 0..11 carries into the year.
\<close>

definition MakeDay :: "int \<Rightarrow> int \<Rightarrow> int \<Rightarrow> int" where
  "MakeDay year month date =
     days_from_civil (year + month div 12) (month mod 12 + 1) 1 + date - 1"

text \<open>
  The day of the month. The standard gives it month by month as the day within the year
  less the days of the year before the month, plus 1: that is the day number less the
  day number of the first of the month, plus 1.
\<close>

definition DateFromTime :: "int \<Rightarrow> int" where
  "DateFromTime t = Day t - MakeDay (YearFromTime t) (MonthFromTime t) 1 + 1"

text \<open>
  Local time: the time zone is a fixed offset \<open>tz\<close> (milliseconds east of UTC; 28800000
  in the Philippines), a parameter of every function that reads or sets local date
  fields. Zones that change their offset during the year are outside the model.
\<close>

definition LocalTime :: "int \<Rightarrow> int \<Rightarrow> int" where
  "LocalTime tz t = t + tz"

definition UTC :: "int \<Rightarrow> int \<Rightarrow> int" where
  "UTC tz t = t - tz"

definition getFullYear :: "int \<Rightarrow> int \<Rightarrow> int" where
  "getFullYear tz t = YearFromTime (LocalTime tz t)"

definition getMonth :: "int \<Rightarrow> int \<Rightarrow> int" where
  "getMonth tz t = MonthFromTime (LocalTime tz t)"

definition getDate :: "int \<Rightarrow> int \<Rightarrow> int" where
  "getDate tz t = DateFromTime (LocalTime tz t)"

definition getDay :: "int \<Rightarrow> int \<Rightarrow> int" where
  "getDay tz t = WeekDay (LocalTime tz t)"

definition setDate :: "int \<Rightarrow> int \<Rightarrow> int \<Rightarrow> int" where
  "setDate tz dt t =
     (let lt = LocalTime tz t
      in UTC tz (MakeDate (MakeDay (YearFromTime lt) (MonthFromTime lt) dt) (TimeWithinDay lt)))"

definition setHours :: "int \<Rightarrow> int \<Rightarrow> int \<Rightarrow> int \<Rightarrow> int \<Rightarrow> int \<Rightarrow> int" where
  "setHours tz h m s ms t =
     UTC tz (MakeDate (Day (LocalTime tz t)) (MakeTime h m s ms))"

text \<open>\<^verbatim>\<open>new Date(year, month, date)\<close>: local midnight; a year 0..99 means 1900..1999.\<close>

definition newDateYMD :: "int \<Rightarrow> int \<Rightarrow> int \<Rightarrow> int \<Rightarrow> int" where
  "newDateYMD tz year month date =
     (let yr = (if 0 \<le> year \<and> year \<le> 99 then 1900 + year else year)
      in UTC tz (MakeDate (MakeDay yr month date) 0))"

subsection \<open>Decimal digits\<close>

definition digit_char :: "nat \<Rightarrow> char" where
  "digit_char n = ''0123456789'' ! (n mod 10)"

fun show_nat :: "nat \<Rightarrow> string" where
  "show_nat n = (if n < 10 then [digit_char n] else show_nat (n div 10) @ [digit_char n])"

declare show_nat.simps [simp del]

definition show_int :: "int \<Rightarrow> string" where
  "show_int i = (if i < 0 then CHR ''-'' # show_nat (nat (- i)) else show_nat (nat i))"

definition digit_value :: "char \<Rightarrow> nat option" where
  "digit_value c = map_of (zip ''0123456789'' [0, 1, 2, 3, 4, 5, 6, 7, 8, 9]) c"

text \<open>The value of a string of decimal digits, \<open>None\<close> when a character is no digit.\<close>

fun digits_value :: "nat \<Rightarrow> string \<Rightarrow> nat option" where
  "digits_value acc [] = Some acc"
| "digits_value acc (c # cs) =
     (case digit_value c of None \<Rightarrow> None | Some d \<Rightarrow> digits_value (10 * acc + d) cs)"

subsection \<open>A parser for date-only ISO strings\<close>

text \<open>
  The one form of date string the language fixes and the application asks for,
  \<^verbatim>\<open>YYYY-MM-DD\<close>: midnight UTC of that day. Every other string is an Invalid Date for
  this parser. It is the parser of the examples below; the theorems hold for any.
\<close>

definition DaysInMonth :: "int \<Rightarrow> int \<Rightarrow> int" where
  "DaysInMonth y m = days_from_civil (y + m div 12) (m mod 12 + 1) 1 - days_from_civil y m 1"

definition iso_date :: date_parser where
  "iso_date s =
     (if length s = 10 \<and> s ! 4 = CHR ''-'' \<and> s ! 7 = CHR ''-'' then
        (case (digits_value 0 (take 4 s), digits_value 0 (take 2 (drop 5 s)),
               digits_value 0 (drop 8 s)) of
           (Some y, Some m, Some d) \<Rightarrow>
             if 1 \<le> m \<and> m \<le> 12 \<and> 1 \<le> d \<and> int d \<le> DaysInMonth (int y) (int m)
             then Some (MakeDate (days_from_civil (int y) (int m) (int d)) 0)
             else None
         | _ \<Rightarrow> None)
      else None)"

subsection \<open>Array.prototype.sort\<close>

text \<open>
  \<^verbatim>\<open>sort\<close> is stable, and a comparator result of \<^verbatim>\<open>NaN\<close> counts as 0. For a consistent
  comparator the result is the one stable ordering, which insertion from the right
  computes; for an inconsistent one (here: some date is invalid) the language leaves the
  order to the engine, and the function below is one permitted outcome.
\<close>

fun js_insert :: "('a \<Rightarrow> 'a \<Rightarrow> int) \<Rightarrow> 'a \<Rightarrow> 'a list \<Rightarrow> 'a list" where
  "js_insert cmp x [] = [x]"
| "js_insert cmp x (y # ys) =
     (if cmp x y \<le> 0 then x # y # ys else y # js_insert cmp x ys)"

fun js_sort :: "('a \<Rightarrow> 'a \<Rightarrow> int) \<Rightarrow> 'a list \<Rightarrow> 'a list" where
  "js_sort cmp [] = []"
| "js_sort cmp (x # xs) = js_insert cmp x (js_sort cmp xs)"

text \<open>
  The comparator of \<^verbatim>\<open>handleSaveReceipt\<close>:
  \<^verbatim>\<open>(a, b) => new Date(b.transaction_date!).getTime() - new Date(a.transaction_date!).getTime()\<close>.
  A difference with an invalid date is \<^verbatim>\<open>NaN\<close>, which \<^verbatim>\<open>sort\<close> reads as 0.
\<close>

definition by_date_desc :: "date_parser \<Rightarrow> 'a ReceiptData_scheme \<Rightarrow> 'a ReceiptData_scheme \<Rightarrow> int" where
  "by_date_desc parse a b =
     (case (getTime parse b, getTime parse a) of
        (Some tb, Some ta) \<Rightarrow> tb - ta
      | _ \<Rightarrow> 0)"

section \<open>The application state and its handlers (App.tsx)\<close>

text \<open>
  The state of the component \<^verbatim>\<open>App\<close> is a record, and a handler is a function from the
  state before the event to the state after it. (The sources hold a second, earlier copy
  of this file. Its handlers are the same, but for the flag of the manual-entry form,
  which \<^verbatim>\<open>handleSaveReceipt\<close> itself resets there.)
\<close>

record AppState =
  receiptData :: "ReceiptData option"
  savedReceipts :: "SavedReceiptData list"
  isLoading :: bool
  error :: "string option"
  manualEntryData :: "ReceiptData option"
  showCamera :: bool

definition incomplete_message :: string where
  "incomplete_message = ''Cannot save incomplete receipt data.''"

text \<open>\<^verbatim>\<open>{ ...data, id: Date.now() }\<close>\<close>

definition with_id :: "ReceiptData \<Rightarrow> int \<Rightarrow> SavedReceiptData" where
  "with_id data n =
     \<lparr> transaction_name = transaction_name data,
       total_amount = total_amount data,
       transaction_date = transaction_date data,
       category = category data,
       client_or_prospect = client_or_prospect data,
       purpose = purpose data,
       id' = n \<rparr>"

text \<open>
  \<open>now\<close> is the value of \<^verbatim>\<open>Date.now()\<close> at the call. The amount is tested with
  \<^verbatim>\<open>=== null\<close>, the three strings by truthiness.
\<close>

definition handleSaveReceipt :: "date_parser \<Rightarrow> int \<Rightarrow> ReceiptData \<Rightarrow> AppState \<Rightarrow> AppState" where
  "handleSaveReceipt parse now data st =
     (if falsy (transaction_name data) \<or> total_amount data = None
         \<or> falsy (transaction_date data) \<or> falsy (category data)
      then st\<lparr>error := Some incomplete_message\<rparr>
      else
        let newReceipt = with_id data now
        in st\<lparr>savedReceipts := js_sort (by_date_desc parse) (newReceipt # savedReceipts st),
               receiptData := None\<rparr>)"

definition handleSaveFromManual :: "date_parser \<Rightarrow> int \<Rightarrow> ReceiptData \<Rightarrow> AppState \<Rightarrow> AppState" where
  "handleSaveFromManual parse now data st =
     (handleSaveReceipt parse now data st)\<lparr>manualEntryData := None\<rparr>"

definition handleDiscard :: "AppState \<Rightarrow> AppState" where
  "handleDiscard st = st\<lparr>receiptData := None, error := None\<rparr>"

definition handleDeleteReceipt :: "int \<Rightarrow> AppState \<Rightarrow> AppState" where
  "handleDeleteReceipt i st =
     st\<lparr>savedReceipts := filter (\<lambda>receipt. id' receipt \<noteq> i) (savedReceipts st)\<rparr>"

text \<open>A sequence of save attempts, each with the clock value of its call.\<close>

definition saves :: "date_parser \<Rightarrow> (int \<times> ReceiptData) list \<Rightarrow> AppState \<Rightarrow> AppState" where
  "saves parse calls st = foldl (\<lambda>s (now, data). handleSaveReceipt parse now data s) st calls"

definition initial_state :: AppState where
  "initial_state =
     \<lparr> receiptData = None, savedReceipts = [], isLoading = False, error = None,
       manualEntryData = None, showCamera = False \<rparr>"

subsection \<open>Order by date\<close>




section \<open>Extraction and analysis (services/geminiService.ts)\<close>

definition categories :: "string list" where
  "categories =
     [''Food & Drink'', ''Groceries'', ''Transportation'', ''Shopping'', ''Utilities'',
      ''Entertainment'', ''Health & Wellness'', ''Travel'', ''Other'']"

text \<open>
  The object \<^verbatim>\<open>data\<close> that \<^verbatim>\<open>JSON.parse\<close> returns. The string fields are taken at the
  type the response schema and the cast \<^verbatim>\<open>as ReceiptData\<close> give them (\<open>None\<close>: \<^verbatim>\<open>null\<close> or
  no such key); the amount is kept as a JSON value, since the code tests its type.
\<close>

datatype json_value = JNull | JMissing | JBool bool | JNumber rat | JString string | JObject

record ParsedResponse =
  data_transaction_name :: "string option"
  data_total_amount :: json_value
  data_transaction_date :: "string option"
  data_category :: "string option"
  data_client_or_prospect :: "string option"
  data_purpose :: "string option"

text \<open>\<^verbatim>\<open>typeof x === 'number' ? x : null\<close>\<close>

definition number_or_null :: "json_value \<Rightarrow> rat option" where
  "number_or_null x = (case x of JNumber n \<Rightarrow> Some n | _ \<Rightarrow> None)"

text \<open>\<^verbatim>\<open>data.category && categories.includes(data.category) ? data.category : 'Other'\<close>\<close>

definition category_or_Other :: "string option \<Rightarrow> string option" where
  "category_or_Other c =
     (case c of
        None \<Rightarrow> Some ''Other''
      | Some v \<Rightarrow> if v \<noteq> [] \<and> v \<in> set categories then Some v else Some ''Other'')"

text \<open>The block "Validate and clean up data" of \<^verbatim>\<open>analyzeReceipt\<close>.\<close>

definition validatedData_image :: "ParsedResponse \<Rightarrow> ReceiptData" where
  "validatedData_image data =
     \<lparr> transaction_name = or_null (data_transaction_name data),
       total_amount = number_or_null (data_total_amount data),
       transaction_date = or_null (data_transaction_date data),
       category = category_or_Other (data_category data),
       client_or_prospect = or_null (data_client_or_prospect data),
       purpose = or_null (data_purpose data) \<rparr>"

text \<open>
  The same block of \<^verbatim>\<open>analyzeTransactionFromVoice\<close>; \<open>today\<close> is
  \<^verbatim>\<open>new Date().toISOString().slice(0, 10)\<close>, the date the prompt names as today.
\<close>

definition validatedData_voice :: "string \<Rightarrow> ParsedResponse \<Rightarrow> ReceiptData" where
  "validatedData_voice today data =
     \<lparr> transaction_name = or_null (data_transaction_name data),
       total_amount = number_or_null (data_total_amount data),
       transaction_date = Some (or_else (data_transaction_date data) today),
       category = category_or_Other (data_category data),
       client_or_prospect = or_null (data_client_or_prospect data),
       purpose = or_null (data_purpose data) \<rparr>"

text \<open>
  The two extraction functions. Their input is what the request and \<^verbatim>\<open>JSON.parse\<close>
  deliver: the parsed object, or a failure (the request or the parse throws), which the
  function passes on.
\<close>

datatype failure = Failure

definition analyzeReceipt :: "failure + ParsedResponse \<Rightarrow> failure + ReceiptData" where
  "analyzeReceipt response =
     (case response of Inl e \<Rightarrow> Inl e | Inr data \<Rightarrow> Inr (validatedData_image data))"

definition analyzeTransactionFromVoice :: "string \<Rightarrow> failure + ParsedResponse \<Rightarrow> failure + ReceiptData" where
  "analyzeTransactionFromVoice today response =
     (case response of Inl e \<Rightarrow> Inl e | Inr data \<Rightarrow> Inr (validatedData_voice today data))"

subsection \<open>The table of transactions for the analysis prompt\<close>

text \<open>
  \<^verbatim>\<open>Number.prototype.toFixed(2)\<close> on an exact value: the sign, then the integer \<open>n\<close>
  nearest to 100 times the absolute value (the larger one on a tie), written with at
  least three digits and a point before the last two. A value that is negative and
  rounds to zero keeps its sign. From \<open>10^21\<close> on the builtin switches to the exponent
  notation of the double, which an exact value does not determine: the model does not
  cover that range.
\<close>

definition toFixed2 :: "rat \<Rightarrow> string" where
  "toFixed2 x =
     (let s = (if x < 0 then ''-'' else []);
          n = nat \<lfloor>\<bar>x\<bar> * 100 + 1 / 2\<rfloor>;
          m = show_nat n;
          m = (if length m \<le> 2 then replicate (3 - length m) CHR ''0'' @ m else m);
          k = length m
      in s @ take (k - 2) m @ ''.'' @ drop (k - 2) m)"

text \<open>\<^verbatim>\<open>Array.prototype.join\<close> on an array of strings.\<close>

fun join :: "string \<Rightarrow> string list \<Rightarrow> string" where
  "join sep [] = []"
| "join sep [x] = x"
| "join sep (x # y # ys) = x @ sep @ join sep (y # ys)"

definition newline :: char where
  "newline = CHR 0x0A"

definition header :: string where
  "header = ''Date,Transaction,Amount,Category,Client/Prospect,Purpose'' @ [newline]"

text \<open>
  The array \<^verbatim>\<open>row\<close> before it is joined. \<^verbatim>\<open>t.total_amount?.toFixed(2)\<close> is
  \<^verbatim>\<open>undefined\<close> for an absent amount, and then \<^verbatim>\<open>|| '0.00'\<close> applies.
\<close>

definition row :: "'a ReceiptData_scheme \<Rightarrow> string list" where
  "row t =
     [or_else (transaction_date t) ''N/A'',
      or_else (transaction_name t) ''N/A'',
      or_else (map_option toFixed2 (total_amount t)) ''0.00'',
      or_else (category t) ''N/A'',
      or_else (client_or_prospect t) ''N/A'',
      or_else (purpose t) ''N/A'']"

definition formatTransactionsForAI :: "SavedReceiptData list \<Rightarrow> string" where
  "formatTransactionsForAI transactions =
     (if length transactions = 0 then ''No transactions available.''
      else foldl (\<lambda>formattedString t. formattedString @ join '','' (row t) @ [newline])
             header transactions)"

section \<open>The transaction history (components/TransactionHistory.tsx)\<close>

datatype FilterType = Daily | Weekly | Monthly | Quarterly | Yearly | All

text \<open>\<^verbatim>\<open>getWeekRange\<close>, statement by statement; the result is the pair \<^verbatim>\<open>{ start, end }\<close>.\<close>

definition getWeekRange :: "int \<Rightarrow> int \<Rightarrow> int \<times> int" where
  "getWeekRange tz date =
     (let start = date;
          day = getDay tz start;
          diff = getDate tz start - day + (if day = 0 then - 6 else 1);
          start = setDate tz diff start;
          start = setHours tz 0 0 0 0 start;
          end = start;
          end = setDate tz (getDate tz start + 6) end;
          end = setHours tz 23 59 59 999 end
      in (start, end))"

text \<open>
  For the statement of what \<^verbatim>\<open>getWeekRange\<close> computes: the day number of the Monday of
  the week, Monday to Sunday, that holds the local day of \<open>now\<close>.
\<close>

definition week_monday :: "int \<Rightarrow> int \<Rightarrow> int" where
  "week_monday tz now = Day (LocalTime tz now) - (WeekDay (LocalTime tz now) + 6) mod 7"

definition getQuarterRange :: "int \<Rightarrow> int \<Rightarrow> int \<times> int" where
  "getQuarterRange tz date =
     (let quarter = getMonth tz date div 3;
          start = newDateYMD tz (getFullYear tz date) (quarter * 3) 1;
          end = newDateYMD tz (getFullYear tz start) (getMonth tz start + 3) 0;
          end = setHours tz 23 59 59 999 end
      in (start, end))"

text \<open>
  \<^verbatim>\<open>d >= s\<close> and \<^verbatim>\<open>d <= e\<close> on dates compare the time values; with an Invalid Date
  both are false.
\<close>

definition date_ge :: "int option \<Rightarrow> int \<Rightarrow> bool" where
  "date_ge d s = (case d of None \<Rightarrow> False | Some t \<Rightarrow> s \<le> t)"

definition date_le :: "int option \<Rightarrow> int \<Rightarrow> bool" where
  "date_le d e = (case d of None \<Rightarrow> False | Some t \<Rightarrow> t \<le> e)"

text \<open>
  The variable \<^verbatim>\<open>filtered\<close> after the \<^verbatim>\<open>switch\<close>; \<open>now\<close> is the time value of
  \<^verbatim>\<open>new Date()\<close>. (The title computed beside it is not modelled.)
\<close>

definition filtered :: "date_parser \<Rightarrow> int \<Rightarrow> int \<Rightarrow> FilterType \<Rightarrow> SavedReceiptData list \<Rightarrow> SavedReceiptData list" where
  "filtered parse tz now activeFilter receipts =
     (case activeFilter of
        Daily \<Rightarrow>
          (let todayStart = setHours tz 0 0 0 0 now
           in filter (\<lambda>r. date_ge (newDate parse (transaction_date r)) todayStart) receipts)
      | Weekly \<Rightarrow>
          (let (weekStart, weekEnd) = getWeekRange tz now
           in filter (\<lambda>r. let d = newDate parse (transaction_date r)
                          in date_ge d weekStart \<and> date_le d weekEnd) receipts)
      | Monthly \<Rightarrow>
          (let monthStart = newDateYMD tz (getFullYear tz now) (getMonth tz now) 1
           in filter (\<lambda>r. date_ge (newDate parse (transaction_date r)) monthStart) receipts)
      | Quarterly \<Rightarrow>
          (let quarterStart = fst (getQuarterRange tz now)
           in filter (\<lambda>r. date_ge (newDate parse (transaction_date r)) quarterStart) receipts)
      | Yearly \<Rightarrow>
          (let yearStart = newDateYMD tz (getFullYear tz now) 0 1
           in filter (\<lambda>r. date_ge (newDate parse (transaction_date r)) yearStart) receipts)
      | All \<Rightarrow> receipts)"

subsection \<open>The summary object\<close>

text \<open>
  The accumulator of \<^verbatim>\<open>reduce\<close> is a plain object used as a dictionary from category to
  total. It is modelled by its own properties, as a list of pairs in the order in which
  the keys were first set. Two things of the language show through such an object:
  \<^item> keys that are array indices (canonical decimal numerals below \<open>2^32 - 1\<close>) are
    enumerated first, in numeric order, and the other keys after them in the order of
    their creation: \<open>Object_entries\<close>;
  \<^item> a key that names a property of \<^verbatim>\<open>Object.prototype\<close> is found by a read although it
    was never set. The model reads own properties only, so it is a model for the keys
    outside \<open>Object_prototype_keys\<close>.
\<close>

type_synonym js_object = "(string \<times> rat) list"

definition obj_get :: "js_object \<Rightarrow> string \<Rightarrow> rat option" where
  "obj_get obj k = map_of obj k"

fun obj_set :: "js_object \<Rightarrow> string \<Rightarrow> rat \<Rightarrow> js_object" where
  "obj_set [] k v = [(k, v)]"
| "obj_set ((k', v') # obj) k v =
     (if k' = k then (k, v) # obj else (k', v') # obj_set obj k v)"

definition is_array_index :: "string \<Rightarrow> bool" where
  "is_array_index k =
     (case digits_value 0 k of
        None \<Rightarrow> False
      | Some n \<Rightarrow> k \<noteq> [] \<and> n \<le> 4294967294 \<and> show_nat n = k)"

definition array_index :: "string \<Rightarrow> nat" where
  "array_index k = the (digits_value 0 k)"

definition Object_entries :: "js_object \<Rightarrow> (string \<times> rat) list" where
  "Object_entries obj =
     sort_key (\<lambda>(k, v). array_index k) (filter (\<lambda>(k, v). is_array_index k) obj)
     @ filter (\<lambda>(k, v). \<not> is_array_index k) obj"

definition Object_prototype_keys :: "string list" where
  "Object_prototype_keys =
     [''constructor'', ''hasOwnProperty'', ''isPrototypeOf'', ''propertyIsEnumerable'',
      ''toLocaleString'', ''toString'', ''valueOf'', ''__proto__'', ''__defineGetter__'',
      ''__defineSetter__'', ''__lookupGetter__'', ''__lookupSetter__'']"

text \<open>A key for which the list of pairs is the object: no array index, nothing inherited.\<close>

definition plain_key :: "string \<Rightarrow> bool" where
  "plain_key k = (\<not> is_array_index k \<and> k \<notin> set Object_prototype_keys)"

text \<open>\<^verbatim>\<open>receipt.category || 'Uncategorized'\<close>\<close>

definition category_key :: "'a ReceiptData_scheme \<Rightarrow> string" where
  "category_key receipt = or_else (category receipt) ''Uncategorized''"

text \<open>The callback of \<^verbatim>\<open>reduce\<close>.\<close>

definition summary_step :: "js_object \<Rightarrow> SavedReceiptData \<Rightarrow> js_object" where
  "summary_step acc receipt =
     (let category = category_key receipt
      in obj_set acc category
           (or_zero (obj_get acc category) + or_zero (total_amount receipt)))"

definition summaryArray :: "SavedReceiptData list \<Rightarrow> (string \<times> rat) list" where
  "summaryArray rs = Object_entries (foldl summary_step [] rs)"

text \<open>
  \<^verbatim>\<open>filteredData\<close>: the records themselves under \<^verbatim>\<open>All\<close>, the pairs
  \<^verbatim>\<open>{ category, total }\<close> under every other filter.
\<close>

datatype FilteredData = Records "SavedReceiptData list" | Summary "(string \<times> rat) list"

definition filteredData :: "date_parser \<Rightarrow> int \<Rightarrow> int \<Rightarrow> FilterType \<Rightarrow> SavedReceiptData list \<Rightarrow> FilteredData" where
  "filteredData parse tz now activeFilter receipts =
     (let rs = filtered parse tz now activeFilter receipts
      in if activeFilter \<noteq> All then Summary (summaryArray rs) else Records rs)"

subsection \<open>What the summary is meant to be\<close>

text \<open>The distinct elements of a list, each at the place of its first occurrence.\<close>

fun first_occurrences :: "'a list \<Rightarrow> 'a list" where
  "first_occurrences [] = []"
| "first_occurrences (x # xs) = x # first_occurrences (removeAll x xs)"

text \<open>The sum of the amounts of a category, an absent amount counting as zero.\<close>

definition category_total :: "string \<Rightarrow> 'a ReceiptData_scheme list \<Rightarrow> rat" where
  "category_total c rs =
     sum_list (map (\<lambda>r. case total_amount r of None \<Rightarrow> 0 | Some a \<Rightarrow> a)
       (filter (\<lambda>r. category_key r = c) rs))"

definition totals_by_category :: "'a ReceiptData_scheme list \<Rightarrow> (string \<times> rat) list" where
  "totals_by_category rs =
     map (\<lambda>c. (c, category_total c rs)) (first_occurrences (map category_key rs))"

section \<open>The image handler (App.tsx)\<close>

text \<open>A number in a template literal; \<open>None\<close> is \<^verbatim>\<open>NaN\<close>.\<close>

definition number_text :: "int option \<Rightarrow> string" where
  "number_text n = (case n of None \<Rightarrow> ''NaN'' | Some i \<Rightarrow> show_int i)"

definition year_message :: "int option \<Rightarrow> int \<Rightarrow> string" where
  "year_message receiptYear currentYear =
     ''This receipt is from '' @ number_text receiptYear
     @ ''. Only transactions for the current year ('' @ show_int currentYear
     @ '') are allowed.''"

text \<open>
  \<^verbatim>\<open>handleImageSelect\<close>, from the click to the end of the handler: \<open>result\<close> is the
  outcome of \<^verbatim>\<open>await analyzeReceipt(file)\<close>, \<open>now\<close> the time value of the
  \<^verbatim>\<open>new Date()\<close> that follows it. \<^verbatim>\<open>receiptYear !== currentYear\<close> is true when the
  receipt year is \<^verbatim>\<open>NaN\<close>.
\<close>

definition handleImageSelect :: "date_parser \<Rightarrow> int \<Rightarrow> int \<Rightarrow> failure + ReceiptData \<Rightarrow> AppState \<Rightarrow> AppState" where
  "handleImageSelect parse tz now result st =
     (let st = st\<lparr>isLoading := True, error := None, receiptData := None\<rparr>
      in case result of
           Inl err \<Rightarrow>
             st\<lparr>error := Some ''Failed to analyze the receipt. Please try again.'',
                isLoading := False\<rparr>
         | Inr data \<Rightarrow>
             if \<not> falsy (transaction_date data) then
               (let receiptYear = map_option (getFullYear tz) (newDate parse (transaction_date data));
                    currentYear = getFullYear tz now
                in if receiptYear \<noteq> Some currentYear
                   then st\<lparr>error := Some (year_message receiptYear currentYear),
                           isLoading := False\<rparr>
                   else st\<lparr>receiptData := Some data, isLoading := False\<rparr>)
             else st\<lparr>receiptData := Some data, isLoading := False\<rparr>)"

section \<open>Example inputs\<close>

definition example_receipt :: "string \<Rightarrow> rat \<Rightarrow> string \<Rightarrow> string \<Rightarrow> ReceiptData" where
  "example_receipt name amount date cat =
     \<lparr> transaction_name = Some name, total_amount = Some amount,
       transaction_date = Some date, category = Some cat,
       client_or_prospect = None, purpose = None \<rparr>"

definition toll :: ReceiptData where
  "toll = example_receipt ''Toll'' 100 ''2025-11-03'' ''Transportation''"

definition parking :: ReceiptData where
  "parking = example_receipt ''Parking'' 50 ''2025-11-02'' ''Transportation''"

definition coffee :: ReceiptData where
  "coffee = example_receipt ''Client Coffee'' 120 ''2025-11-01'' ''Food & Drink''"

definition lunch :: ReceiptData where
  "lunch = example_receipt ''Lunch'' 250 ''2025-11-02'' ''Food & Drink''"

definition free_sample :: ReceiptData where
  "free_sample = example_receipt ''Free sample'' 0 ''2025-11-02'' ''Other''"

text \<open>Three saved records, two of them with the same id.\<close>

definition example_state :: AppState where
  "example_state = initial_state\<lparr>savedReceipts := [with_id toll 1, with_id parking 2, with_id coffee 1]\<rparr>"

text \<open>Three responses of the model: a category of the list, one outside it, none.\<close>

definition example_response :: "string option \<Rightarrow> string option \<Rightarrow> ParsedResponse" where
  "example_response date cat =
     \<lparr> data_transaction_name = Some ''Grab'', data_total_amount = JNumber 185,
       data_transaction_date = date, data_category = cat,
       data_client_or_prospect = None, data_purpose = Some ''Site visit'' \<rparr>"

text \<open>The clock of the examples: Monday 3 November 2025, 10:00 in Manila (UTC+8).\<close>

definition manila :: int where
  "manila = 28800000"

definition monday_morning :: int where
  "monday_morning = 1762135200000"

text \<open>The day before at the same hour, a Sunday.\<close>

definition sunday_morning :: int where
  "sunday_morning = 1762048800000"


text \<open>
  The scenario of the specification: three records of this month, saved in this order,
  with amounts 50, 100 and 200 in the categories Transportation, Transportation and
  Food & Drink. The date of the third is left open.
\<close>

definition parking50 :: ReceiptData where
  "parking50 = example_receipt ''Parking'' 50 ''2025-11-03'' ''Transportation''"

definition coffee200 :: "string \<Rightarrow> ReceiptData" where
  "coffee200 date = example_receipt ''Client Coffee'' 200 date ''Food & Drink''"

definition scenario :: "string \<Rightarrow> (int \<times> ReceiptData) list" where
  "scenario coffee_date = [(1, parking50), (2, toll), (3, coffee200 coffee_date)]"

section \<open>Properties of the sort\<close>

lemma set_js_insert: "set (js_insert cmp x xs) = insert x (set xs)"
  by (induction xs) auto

lemma mset_js_insert: "mset (js_insert cmp x xs) = add_mset x (mset xs)"
  by (induction xs) auto

lemma mset_js_sort: "mset (js_sort cmp xs) = mset xs"
  by (induction xs) (simp_all add: mset_js_insert)

lemma set_js_sort: "set (js_sort cmp xs) = set xs"
  by (induction xs) (simp_all add: set_js_insert)

lemma length_js_sort: "length (js_sort cmp xs) = length xs"
  using mset_js_sort [of cmp xs] by (metis size_mset)








section \<open>Evaluation of the examples\<close>

text \<open>
  Check points of the calendar: the epoch, the day before it, a leap day, the turn of a
  year, and the Monday of the examples.
\<close>

lemma calendar_examples:
  "civil_from_days 0 = (1970, 1, 1)" "civil_from_days (- 1) = (1969, 12, 31)"
  "civil_from_days 11016 = (2000, 2, 29)" "civil_from_days 11017 = (2000, 3, 1)"
  "civil_from_days 20453 = (2025, 12, 31)" "civil_from_days 20454 = (2026, 1, 1)"
  "civil_from_days 20395 = (2025, 11, 3)" "days_from_civil 2025 11 3 = 20395"
  "days_from_civil 1970 1 1 = 0" "days_from_civil 2000 2 29 = 11016"
  "WeekDay (MakeDate 20395 0) = 1" "DateFromTime (MakeDate 20395 0) = 3"
  "DaysInMonth 2024 2 = 29" "DaysInMonth 2025 2 = 28" "DaysInMonth 2025 12 = 31"
  by code_simp+

lemma iso_date_2025_11_01: "iso_date ''2025-11-01'' = Some 1761955200000"
  by (simp add: iso_date_def digit_value_def MakeDate_def days_from_civil_def msPerDay_def
      DaysInMonth_def)

lemma iso_date_2025_11_02: "iso_date ''2025-11-02'' = Some 1762041600000"
  by (simp add: iso_date_def digit_value_def MakeDate_def days_from_civil_def msPerDay_def
      DaysInMonth_def)

lemma iso_date_2025_11_03: "iso_date ''2025-11-03'' = Some 1762128000000"
  by (simp add: iso_date_def digit_value_def MakeDate_def days_from_civil_def msPerDay_def
      DaysInMonth_def)

lemmas iso_date_examples = iso_date_2025_11_01 iso_date_2025_11_02 iso_date_2025_11_03

lemma getTime_with_id: "getTime parse (with_id data n) = newDate parse (transaction_date data)"
  by (simp add: getTime_def with_id_def)

lemma getTime_examples:
  "getTime iso_date (with_id toll n) = Some 1762128000000"
  "getTime iso_date (with_id parking n) = Some 1762041600000"
  "getTime iso_date (with_id coffee n) = Some 1761955200000"
  "getTime iso_date (with_id lunch n) = Some 1762041600000"
  "getTime iso_date (with_id free_sample n) = Some 1762041600000"
  by (simp_all add: getTime_with_id newDate_def toll_def parking_def coffee_def lunch_def
      free_sample_def example_receipt_def iso_date_examples)

lemma complete_examples:
  "\<not> falsy (transaction_name toll)" "\<not> falsy (transaction_date toll)" "\<not> falsy (category toll)"
  "\<not> falsy (transaction_name parking)" "\<not> falsy (transaction_date parking)" "\<not> falsy (category parking)"
  "\<not> falsy (transaction_name coffee)" "\<not> falsy (transaction_date coffee)" "\<not> falsy (category coffee)"
  "\<not> falsy (transaction_name lunch)" "\<not> falsy (transaction_date lunch)" "\<not> falsy (category lunch)"
  "\<not> falsy (transaction_name free_sample)" "\<not> falsy (transaction_date free_sample)"
  "\<not> falsy (category free_sample)"
  "total_amount toll = Some 100" "total_amount parking = Some 50" "total_amount coffee = Some 120"
  "total_amount lunch = Some 250" "total_amount free_sample = Some 0"
  by (simp_all add: falsy_def toll_def parking_def coffee_def lunch_def free_sample_def
      example_receipt_def)

lemma by_date_desc_examples:
  "by_date_desc iso_date (with_id lunch n) (with_id toll m) = 86400000"
  "by_date_desc iso_date (with_id lunch n) (with_id parking m) = 0"
  "by_date_desc iso_date (with_id free_sample n) (with_id toll m) = 86400000"
  "by_date_desc iso_date (with_id free_sample n) (with_id parking m) = 0"
  "by_date_desc iso_date (with_id toll n) (with_id parking m) = - 86400000"
  "by_date_desc iso_date (with_id parking n) (with_id coffee m) = - 86400000"
  "by_date_desc iso_date (with_id toll n) (with_id coffee m) = - 172800000"
  "by_date_desc iso_date (with_id coffee n) (with_id toll m) = 172800000"
  "by_date_desc iso_date (with_id coffee n) (with_id parking m) = 86400000"
  "by_date_desc iso_date (with_id parking n) (with_id toll m) = 86400000"
  by (simp_all add: by_date_desc_def getTime_examples)

lemma id_with_id: "id' (with_id data n) = n"
  by (simp add: with_id_def)

lemma truncate_with_id: "ReceiptData.truncate (with_id data n) = data"
  by (simp add: with_id_def ReceiptData.truncate_def)

lemma handleSaveReceipt_complete:
  "\<not> falsy (transaction_name data) \<Longrightarrow> total_amount data = Some a \<Longrightarrow>
   \<not> falsy (transaction_date data) \<Longrightarrow> \<not> falsy (category data) \<Longrightarrow>
   handleSaveReceipt parse now data st =
     st\<lparr>savedReceipts := js_sort (by_date_desc parse) (with_id data now # savedReceipts st),
        receiptData := None\<rparr>"
  by (simp add: handleSaveReceipt_def)

lemma handleSaveReceipt_incomplete:
  "falsy (transaction_name data) \<or> total_amount data = None
     \<or> falsy (transaction_date data) \<or> falsy (category data) \<Longrightarrow>
   handleSaveReceipt parse now data st = st\<lparr>error := Some incomplete_message\<rparr>"
  by (simp add: handleSaveReceipt_def)

lemma save_lunch:
  "savedReceipts (handleSaveReceipt iso_date 5 lunch example_state) =
     [with_id toll 1, with_id lunch 5, with_id parking 2, with_id coffee 1]"
  by (simp add: handleSaveReceipt_complete complete_examples example_state_def
      by_date_desc_examples)

lemma save_free_sample:
  "savedReceipts (handleSaveReceipt iso_date 5 free_sample example_state) =
     [with_id toll 1, with_id free_sample 5, with_id parking 2, with_id coffee 1]"
  by (simp add: handleSaveReceipt_complete complete_examples example_state_def
      by_date_desc_examples)

section \<open>Validation of an extraction response\<close>

lemma categories_not_empty: "c \<in> set categories \<Longrightarrow> c \<noteq> []"
  by (auto simp: categories_def)

lemma category_or_Other_member:
  "c \<in> set categories \<Longrightarrow> category_or_Other (Some c) = Some c"
  by (simp add: category_or_Other_def categories_not_empty)

lemma category_or_Other_else:
  "x = None \<or> (\<exists>c. x = Some c \<and> c \<notin> set categories) \<Longrightarrow>
   category_or_Other x = Some ''Other''"
  by (auto simp: category_or_Other_def)

text \<open>
  C5. On both paths (image and audio), a category returned by the model that is a member
  of the nine-value list is kept as it is; a category outside the list, or none at all,
  becomes exactly \<^verbatim>\<open>Other\<close>. The two extraction functions return these validated
  records.
\<close>

theorem extraction_category_member_or_Other:
  "(data_category data = Some c \<and> c \<in> set categories \<longrightarrow>
      category (validatedData_image data) = Some c
      \<and> category (validatedData_voice today data) = Some c)
   \<and> (data_category data = None \<or> (\<exists>c'. data_category data = Some c' \<and> c' \<notin> set categories) \<longrightarrow>
      category (validatedData_image data) = Some ''Other''
      \<and> category (validatedData_voice today data) = Some ''Other'')
   \<and> analyzeReceipt (Inr data) = Inr (validatedData_image data)
   \<and> analyzeTransactionFromVoice today (Inr data) = Inr (validatedData_voice today data)"
  using category_or_Other_member [of c] category_or_Other_else [of "data_category data"]
  by (simp add: validatedData_image_def validatedData_voice_def analyzeReceipt_def
      analyzeTransactionFromVoice_def)

theorem extraction_category_member_or_Other_witness:
  "category (validatedData_image (example_response None (Some ''Groceries''))) = Some ''Groceries''
   \<and> category (validatedData_voice ''2025-11-03'' (example_response None (Some ''Groceries'')))
       = Some ''Groceries''
   \<and> category (validatedData_image (example_response None (Some ''Pets''))) = Some ''Other''
   \<and> category (validatedData_voice ''2025-11-03'' (example_response None (Some ''Pets'')))
       = Some ''Other''
   \<and> category (validatedData_image (example_response None None)) = Some ''Other''"
proof -
  have member: "''Groceries'' \<in> set categories" and no_member: "''Pets'' \<notin> set categories"
    by (simp_all add: categories_def)
  have cat: "data_category (example_response None x) = x" for x
    by (simp add: example_response_def)
  show ?thesis
    using extraction_category_member_or_Other
        [where data = "example_response None (Some ''Groceries'')" and c = "''Groceries''"
           and today = "''2025-11-03''"]
      extraction_category_member_or_Other
        [where data = "example_response None (Some ''Pets'')" and today = "''2025-11-03''"]
      extraction_category_member_or_Other
        [where data = "example_response None None" and today = "''2025-11-03''"]
    by (simp add: member no_member cat)
qed

text \<open>
  C6. When the response has no \<^verbatim>\<open>transaction_date\<close> (\<^verbatim>\<open>null\<close>, or an empty string), the
  audio path puts today's date, the one named in its prompt, into the validated record,
  and the image path leaves the date \<^verbatim>\<open>null\<close>. A date that is there is kept on both
  paths.
\<close>

theorem missing_date_defaults_to_today_on_voice_only:
  "(falsy (data_transaction_date data) \<longrightarrow>
      transaction_date (validatedData_voice today data) = Some today
      \<and> transaction_date (validatedData_image data) = None)
   \<and> (data_transaction_date data = Some d \<and> d \<noteq> [] \<longrightarrow>
      transaction_date (validatedData_voice today data) = Some d
      \<and> transaction_date (validatedData_image data) = Some d)"
  by (auto simp: falsy_def validatedData_image_def validatedData_voice_def or_else_def
      or_null_def)

theorem missing_date_defaults_to_today_on_voice_only_witness:
  "transaction_date (validatedData_voice ''2025-11-03'' (example_response None (Some ''Travel'')))
     = Some ''2025-11-03''
   \<and> transaction_date (validatedData_image (example_response None (Some ''Travel''))) = None
   \<and> transaction_date (validatedData_voice ''2025-11-03''
        (example_response (Some ''2025-10-31'') (Some ''Travel''))) = Some ''2025-10-31''"
proof -
  have date: "data_transaction_date (example_response x y) = x" for x y
    by (simp add: example_response_def)
  show ?thesis
    using missing_date_defaults_to_today_on_voice_only
        [where data = "example_response None (Some ''Travel'')" and today = "''2025-11-03''"]
      missing_date_defaults_to_today_on_voice_only
        [where data = "example_response (Some ''2025-10-31'') (Some ''Travel'')"
           and today = "''2025-11-03''" and d = "''2025-10-31''"]
    by (simp add: date falsy_def)
qed

section \<open>The table of transactions\<close>

lemma show_nat_small: "n < 10 \<Longrightarrow> show_nat n = [digit_char n]"
  by (simp add: show_nat.simps)

lemma show_nat_large: "10 \<le> n \<Longrightarrow> show_nat n = show_nat (n div 10) @ [digit_char n]"
  by (subst show_nat.simps) simp

lemma show_nat_not_empty: "show_nat n \<noteq> []"
  by (cases "n < 10") (simp_all add: show_nat_small show_nat_large)

lemma digit_char_div: "digit_char (n div 10 mod 10) = digit_char (n div 10)"
  by (simp add: digit_char_def)

lemma show_nat_two_digits:
  "10 \<le> n \<Longrightarrow> n < 100 \<Longrightarrow> show_nat n = [digit_char (n div 10), digit_char n]"
  by (simp add: show_nat_large show_nat_small)

lemma show_nat_last_two:
  "100 \<le> n \<Longrightarrow> show_nat n = show_nat (n div 100) @ [digit_char (n div 10), digit_char n]"
proof -
  assume n: "100 \<le> n"
  then have "10 \<le> n div 10" by simp
  then have "show_nat (n div 10) = show_nat (n div 10 div 10) @ [digit_char (n div 10)]"
    by (rule show_nat_large)
  moreover have "n div 10 div 10 = n div 100"
    by (simp add: div_mult2_eq [symmetric])
  ultimately show ?thesis
    using n by (simp add: show_nat_large)
qed

text \<open>The digits of \<open>toFixed2\<close>: the integer part, a point, two decimals.\<close>

lemma toFixed2_shape:
  "toFixed2 x =
     (let n = nat \<lfloor>\<bar>x\<bar> * 100 + 1 / 2\<rfloor>
      in (if x < 0 then ''-'' else []) @ show_nat (n div 100) @ ''.''
         @ [digit_char (n div 10), digit_char n])"
proof -
  define n where "n = nat \<lfloor>\<bar>x\<bar> * 100 + 1 / 2\<rfloor>"
  consider "n < 10" | "10 \<le> n" "n < 100" | "100 \<le> n" by linarith
  then have "(let m = show_nat n;
                  m = (if length m \<le> 2 then replicate (3 - length m) CHR ''0'' @ m else m);
                  k = length m
              in take (k - 2) m @ ''.'' @ drop (k - 2) m)
            = show_nat (n div 100) @ ''.'' @ [digit_char (n div 10), digit_char n]"
  proof cases
    case 1
    then show ?thesis
      by (simp add: show_nat_small digit_char_def numeral_3_eq_3)
  next
    case 2
    then show ?thesis
      by (simp add: show_nat_two_digits show_nat_small digit_char_def numeral_3_eq_3)
  next
    case 3
    then show ?thesis
      by (simp add: show_nat_last_two show_nat_not_empty Let_def)
  qed
  then show ?thesis
    by (simp add: toFixed2_def n_def Let_def)
qed

lemma toFixed2_not_empty: "toFixed2 x \<noteq> []"
  by (simp add: toFixed2_shape Let_def)

lemma or_else_NA: "or_else s ''N/A'' = (if falsy s then ''N/A'' else the s)"
  by (auto simp: or_else_def falsy_def split: option.splits)

lemma amount_text:
  "or_else (map_option toFixed2 a) ''0.00'' = (case a of None \<Rightarrow> ''0.00'' | Some v \<Rightarrow> toFixed2 v)"
  by (simp add: or_else_def toFixed2_not_empty split: option.splits)

lemma foldl_append_rows: "foldl (\<lambda>s t. s @ f t) h ts = h @ concat (map f ts)"
  by (induction ts arbitrary: h) simp_all

text \<open>
  C4, as the code has it. For every list of records that is not empty, the table is the
  header line followed by one line per record, in the order of the list; a line is the
  six fields of the record joined by commas. A date, name, category, client or purpose
  that is absent (\<^verbatim>\<open>null\<close>, missing or empty) is written \<^verbatim>\<open>N/A\<close>. The amount is written
  with two decimals when it is present (its rounded hundredths as integer part, point and
  two digits, for an amount below \<open>10^21\<close>), and as \<^verbatim>\<open>0.00\<close> when it is absent. For the
  empty list the result is the sentence \<^verbatim>\<open>No transactions available.\<close> and no header.
\<close>

theorem formatTransactionsForAI_rows:
  "(transactions \<noteq> [] \<longrightarrow>
      formatTransactionsForAI transactions =
        header @ concat (map (\<lambda>t. join '','' (row t) @ [newline]) transactions))
   \<and> formatTransactionsForAI [] = ''No transactions available.''
   \<and> row t =
       [if falsy (transaction_date t) then ''N/A'' else the (transaction_date t),
        if falsy (transaction_name t) then ''N/A'' else the (transaction_name t),
        case total_amount t of None \<Rightarrow> ''0.00'' | Some a \<Rightarrow> toFixed2 a,
        if falsy (category t) then ''N/A'' else the (category t),
        if falsy (client_or_prospect t) then ''N/A'' else the (client_or_prospect t),
        if falsy (purpose t) then ''N/A'' else the (purpose t)]
   \<and> (\<bar>a\<bar> < 10 ^ 21 \<longrightarrow>
        toFixed2 a =
          (if a < 0 then ''-'' else []) @ show_nat (nat \<lfloor>\<bar>a\<bar> * 100 + 1 / 2\<rfloor> div 100) @ ''.''
          @ [digit_char (nat \<lfloor>\<bar>a\<bar> * 100 + 1 / 2\<rfloor> div 10),
             digit_char (nat \<lfloor>\<bar>a\<bar> * 100 + 1 / 2\<rfloor>)])"
proof -
  have "formatTransactionsForAI transactions =
      header @ concat (map (\<lambda>t. join '','' (row t) @ [newline]) transactions)"
    if "transactions \<noteq> []"
    using that by (simp add: formatTransactionsForAI_def foldl_append_rows)
  moreover have "formatTransactionsForAI [] = ''No transactions available.''"
    by (simp add: formatTransactionsForAI_def)
  moreover have "row t =
       [if falsy (transaction_date t) then ''N/A'' else the (transaction_date t),
        if falsy (transaction_name t) then ''N/A'' else the (transaction_name t),
        case total_amount t of None \<Rightarrow> ''0.00'' | Some a \<Rightarrow> toFixed2 a,
        if falsy (category t) then ''N/A'' else the (category t),
        if falsy (client_or_prospect t) then ''N/A'' else the (client_or_prospect t),
        if falsy (purpose t) then ''N/A'' else the (purpose t)]"
    unfolding row_def or_else_NA amount_text ..
  ultimately show ?thesis
    using toFixed2_shape [of a] by (simp add: Let_def)
qed

lemma toFixed2_100: "toFixed2 100 = ''100.00''"
proof -
  have "\<lfloor>(20001::rat) / 2\<rfloor> = 10000"
    by (rule floor_unique) simp_all
  then show ?thesis
    by (simp add: toFixed2_shape show_nat_small show_nat_large digit_char_def)
qed

lemma row_examples:
  "join '','' (row (with_id toll 1)) = ''2025-11-03,Toll,100.00,Transportation,N/A,N/A''"
  "join '','' (row (with_id (toll\<lparr>total_amount := None\<rparr>) 1)) = ''2025-11-03,Toll,0.00,Transportation,N/A,N/A''"
  by (simp_all add: row_def with_id_def toll_def example_receipt_def or_else_def toFixed2_100)

theorem formatTransactionsForAI_rows_witness:
  "formatTransactionsForAI [with_id toll 1, with_id (toll\<lparr>total_amount := None\<rparr>) 1] =
     ''Date,Transaction,Amount,Category,Client/Prospect,Purpose'' @ [CHR 0x0A]
     @ ''2025-11-03,Toll,100.00,Transportation,N/A,N/A'' @ [CHR 0x0A]
     @ ''2025-11-03,Toll,0.00,Transportation,N/A,N/A'' @ [CHR 0x0A]"
  using formatTransactionsForAI_rows
    [where transactions = "[with_id toll 1, with_id (toll\<lparr>total_amount := None\<rparr>) 1]"
       and t = "with_id toll 1" and a = 100]
  by (simp add: row_examples header_def newline_def)

text \<open>
  C4 as stated fails: a record without an amount gets \<^verbatim>\<open>0.00\<close> in the amount column,
  not \<^verbatim>\<open>N/A\<close>; and the empty list gets no header.
\<close>

theorem formatTransactionsForAI_absent_amount_counterexample:
  "formatTransactionsForAI [with_id (toll\<lparr>total_amount := None\<rparr>) 1] =
     ''Date,Transaction,Amount,Category,Client/Prospect,Purpose'' @ [CHR 0x0A]
     @ ''2025-11-03,Toll,0.00,Transportation,N/A,N/A'' @ [CHR 0x0A]
   \<and> formatTransactionsForAI [] = ''No transactions available.''"
  by (simp add: formatTransactionsForAI_def row_examples header_def newline_def)

section \<open>The weekly window\<close>

lemma MakeDay_date: "MakeDay y m d = MakeDay y m 1 + d - 1"
  by (simp add: MakeDay_def)

lemma TimeWithinDay_bounds: "0 \<le> TimeWithinDay t" "TimeWithinDay t < msPerDay"
  by (simp_all add: TimeWithinDay_def msPerDay_def)

lemma Day_MakeDate: "0 \<le> t \<Longrightarrow> t < msPerDay \<Longrightarrow> Day (MakeDate d t) = d"
  by (simp add: Day_def MakeDate_def msPerDay_def)

lemma TimeWithinDay_MakeDate: "0 \<le> t \<Longrightarrow> t < msPerDay \<Longrightarrow> TimeWithinDay (MakeDate d t) = t"
  by (simp add: TimeWithinDay_def MakeDate_def msPerDay_def)

lemma MakeDate_Day: "MakeDate (Day t) (TimeWithinDay t) = t"
  by (simp add: MakeDate_def Day_def TimeWithinDay_def)

lemma LocalTime_UTC: "LocalTime tz (UTC tz t) = t"
  by (simp add: LocalTime_def UTC_def)

lemma WeekDay_bounds: "0 \<le> WeekDay t" "WeekDay t < 7"
  by (simp_all add: WeekDay_def)

text \<open>\<^verbatim>\<open>setDate\<close> moves the date by whole days and keeps the time of day.\<close>

lemma setDate_shift:
  "setDate tz dt t =
     UTC tz (MakeDate (Day (LocalTime tz t) - getDate tz t + dt) (TimeWithinDay (LocalTime tz t)))"
proof -
  let ?lt = "LocalTime tz t"
  have "MakeDay (YearFromTime ?lt) (MonthFromTime ?lt) dt = Day ?lt - getDate tz t + dt"
    using MakeDay_date [of "YearFromTime ?lt" "MonthFromTime ?lt" dt]
    by (simp add: getDate_def DateFromTime_def)
  then show ?thesis
    by (simp add: setDate_def Let_def)
qed

lemma setHours_day:
  "setHours tz h m s ms t = UTC tz (MakeDate (Day (LocalTime tz t)) (MakeTime h m s ms))"
  by (simp add: setHours_def)

lemma monday_offset:
  "0 \<le> w \<Longrightarrow> w < 7 \<Longrightarrow> - w + (if w = 0 then - 6 else 1) = - ((w + 6) mod 7)" for w :: int
  by (auto simp: mod_pos_pos_trivial) presburger

lemma getWeekRange_eq:
  "getWeekRange tz now =
     (UTC tz (MakeDate (week_monday tz now) 0),
      UTC tz (MakeDate (week_monday tz now + 6) (MakeTime 23 59 59 999)))"
proof -
  let ?lt = "LocalTime tz now"
  let ?w = "getDay tz now"
  let ?M = "week_monday tz now"
  have w: "?w = WeekDay ?lt" by (simp add: getDay_def)
  have "Day ?lt - getDate tz now + (getDate tz now - ?w + (if ?w = 0 then - 6 else 1)) =
      Day ?lt + (- ?w + (if ?w = 0 then - 6 else 1))"
    by simp
  also have "\<dots> = ?M"
    using monday_offset [of ?w] WeekDay_bounds [of ?lt] by (simp add: w week_monday_def)
  finally have start1: "setDate tz (getDate tz now - ?w + (if ?w = 0 then - 6 else 1)) now =
      UTC tz (MakeDate ?M (TimeWithinDay ?lt))"
    by (simp only: setDate_shift)
  have start2: "setHours tz 0 0 0 0 (UTC tz (MakeDate ?M (TimeWithinDay ?lt))) =
      UTC tz (MakeDate ?M 0)"
    by (simp add: setHours_day LocalTime_UTC Day_MakeDate TimeWithinDay_bounds MakeTime_def)
  have day2: "Day (MakeDate ?M 0) = ?M" and time2: "TimeWithinDay (MakeDate ?M 0) = 0"
    by (simp_all add: Day_MakeDate TimeWithinDay_MakeDate msPerDay_def)
  have end1: "setDate tz (getDate tz (UTC tz (MakeDate ?M 0)) + 6) (UTC tz (MakeDate ?M 0)) =
      UTC tz (MakeDate (?M + 6) 0)"
    by (simp add: setDate_shift LocalTime_UTC day2 time2)
  have end2: "setHours tz 23 59 59 999 (UTC tz (MakeDate (?M + 6) 0)) =
      UTC tz (MakeDate (?M + 6) (MakeTime 23 59 59 999))"
    by (simp add: setHours_day LocalTime_UTC Day_MakeDate msPerDay_def)
  show ?thesis
    unfolding getWeekRange_def Let_def start1 start2 end1 end2 ..
qed

lemma week_monday_is_monday: "WeekDay (MakeDate (week_monday tz now) 0) = 1"
proof -
  have "Day (MakeDate (week_monday tz now) 0) = week_monday tz now"
    by (simp add: Day_MakeDate msPerDay_def)
  then show ?thesis
    unfolding WeekDay_def week_monday_def by presburger
qed

lemma week_monday_recent:
  "week_monday tz now \<le> Day (LocalTime tz now)"
  "Day (LocalTime tz now) \<le> week_monday tz now + 6"
  unfolding week_monday_def by presburger+


lemma getWeekRange_start:
  "fst (getWeekRange tz now) = UTC tz (MakeDate (week_monday tz now) 0)"
  and getWeekRange_end:
  "snd (getWeekRange tz now) = UTC tz (MakeDate (week_monday tz now + 6) (MakeTime 23 59 59 999))"
  by (simp_all add: getWeekRange_eq)

lemma filtered_Weekly:
  "filtered parse tz now Weekly receipts =
     filter (\<lambda>r. case newDate parse (transaction_date r) of
                    None \<Rightarrow> False
                  | Some d \<Rightarrow> fst (getWeekRange tz now) \<le> d \<and> d \<le> snd (getWeekRange tz now))
       receipts"
  by (auto simp: filtered_def date_ge_def date_le_def Let_def case_prod_beta
      split: option.splits intro!: filter_cong)

lemma week_by_day:
  assumes "0 \<le> tz" "tz < msPerDay"
  shows "(fst (getWeekRange tz now) \<le> MakeDate day 0 \<and> MakeDate day 0 \<le> snd (getWeekRange tz now))
     = (week_monday tz now \<le> day \<and> day \<le> week_monday tz now + 6)"
proof -
  let ?M = "week_monday tz now"
  have start: "fst (getWeekRange tz now) = ?M * 86400000 - tz"
    by (simp add: getWeekRange_start UTC_def MakeDate_def msPerDay_def)
  have "end": "snd (getWeekRange tz now) = (?M + 7) * 86400000 - 1 - tz"
    by (simp add: getWeekRange_end UTC_def MakeDate_def MakeTime_def msPerDay_def)
  have tz: "0 \<le> tz" "tz < 86400000"
    using assms by (simp_all add: msPerDay_def)
  have "(?M * 86400000 - tz \<le> day * 86400000) = (?M \<le> day)"
    using tz by auto
  moreover have "(day * 86400000 \<le> (?M + 7) * 86400000 - 1 - tz) = (day \<le> ?M + 6)"
    using tz by auto
  ultimately show ?thesis
    by (simp add: start "end" MakeDate_def msPerDay_def)
qed

lemma Day_start: "Day (LocalTime tz (fst (getWeekRange tz now))) = week_monday tz now"
  by (simp add: getWeekRange_start LocalTime_UTC Day_MakeDate msPerDay_def)

text \<open>
  C7. The local time zone is a fixed offset from UTC. For every value of \<open>now\<close>, the start
  of the weekly window is a local midnight, on a Monday, at or before \<open>now\<close> and less
  than seven days before it: the most recent Monday. The end is the last millisecond of
  the seventh day from there, a Sunday. When \<open>now\<close> is on a Sunday the start is six days
  earlier, the Monday before. The Weekly filter keeps exactly the records whose date is a
  valid date with a time value from the start to the end, both included. In a zone at or
  east of UTC (an offset from 0 to less than a day), a date that is a day, read as midnight
  UTC of that day as date-only strings are, lies in the window exactly when the day is one
  of the seven from that Monday to that Sunday.
\<close>

theorem getWeekRange_monday_to_sunday:
  "TimeWithinDay (LocalTime tz (fst (getWeekRange tz now))) = 0
   \<and> WeekDay (LocalTime tz (fst (getWeekRange tz now))) = 1
   \<and> fst (getWeekRange tz now) \<le> now
   \<and> now < fst (getWeekRange tz now) + 7 * msPerDay
   \<and> snd (getWeekRange tz now) = fst (getWeekRange tz now) + 7 * msPerDay - 1
   \<and> WeekDay (LocalTime tz (snd (getWeekRange tz now))) = 0
   \<and> TimeWithinDay (LocalTime tz (snd (getWeekRange tz now))) = msPerDay - 1
   \<and> (WeekDay (LocalTime tz now) = 0 \<longrightarrow>
        Day (LocalTime tz (fst (getWeekRange tz now))) = Day (LocalTime tz now) - 6)
   \<and> filtered parse tz now Weekly receipts =
        filter (\<lambda>r. case newDate parse (transaction_date r) of
                       None \<Rightarrow> False
                     | Some d \<Rightarrow> fst (getWeekRange tz now) \<le> d \<and> d \<le> snd (getWeekRange tz now))
          receipts
   \<and> (0 \<le> tz \<and> tz < msPerDay \<longrightarrow>
        (fst (getWeekRange tz now) \<le> MakeDate day 0 \<and> MakeDate day 0 \<le> snd (getWeekRange tz now))
        = (Day (LocalTime tz (fst (getWeekRange tz now))) \<le> day
           \<and> day \<le> Day (LocalTime tz (fst (getWeekRange tz now))) + 6))"
proof -
  let ?lt = "LocalTime tz now"
  let ?M = "week_monday tz now"
  let ?start = "fst (getWeekRange tz now)"
  let ?end = "snd (getWeekRange tz now)"
  have local_start: "LocalTime tz ?start = MakeDate ?M 0"
    by (simp add: getWeekRange_start LocalTime_UTC)
  have local_end: "LocalTime tz ?end = MakeDate (?M + 6) (msPerDay - 1)"
    by (simp add: getWeekRange_end LocalTime_UTC MakeTime_def msPerDay_def)
  have midnight: "TimeWithinDay (LocalTime tz ?start) = 0"
    unfolding local_start by (simp add: TimeWithinDay_MakeDate msPerDay_def)
  have monday: "WeekDay (LocalTime tz ?start) = 1"
    unfolding local_start by (rule week_monday_is_monday)
  have now: "now = UTC tz (MakeDate (Day ?lt) (TimeWithinDay ?lt))"
    by (simp add: MakeDate_Day UTC_def LocalTime_def)
  have "MakeDate ?M 0 \<le> MakeDate (Day ?lt) (TimeWithinDay ?lt)"
    using week_monday_recent(1) [of tz now] TimeWithinDay_bounds(1) [of ?lt]
    by (simp add: MakeDate_def msPerDay_def)
  then have before: "?start \<le> now"
    unfolding getWeekRange_start by (subst (2) now) (simp add: UTC_def)
  have "MakeDate (Day ?lt) (TimeWithinDay ?lt) < MakeDate ?M 0 + 7 * msPerDay"
    using week_monday_recent(2) [of tz now] TimeWithinDay_bounds(2) [of ?lt]
    by (simp add: MakeDate_def msPerDay_def)
  then have recent: "now < ?start + 7 * msPerDay"
    unfolding getWeekRange_start by (subst now) (simp add: UTC_def)
  have end_eq: "?end = ?start + 7 * msPerDay - 1"
    by (simp add: getWeekRange_start getWeekRange_end UTC_def MakeDate_def MakeTime_def
        msPerDay_def)
  have "Day (MakeDate (?M + 6) (msPerDay - 1)) = ?M + 6"
    by (simp add: Day_MakeDate msPerDay_def)
  then have sunday: "WeekDay (LocalTime tz ?end) = 0"
    unfolding local_end WeekDay_def week_monday_def by presburger
  have day_end: "TimeWithinDay (LocalTime tz ?end) = msPerDay - 1"
    unfolding local_end by (simp add: TimeWithinDay_MakeDate msPerDay_def)
  have on_sunday: "Day (LocalTime tz ?start) = Day ?lt - 6" if "WeekDay ?lt = 0"
    unfolding local_start using that
    by (simp add: Day_MakeDate msPerDay_def week_monday_def)
  have by_day: "(?start \<le> MakeDate day 0 \<and> MakeDate day 0 \<le> ?end)
        = (Day (LocalTime tz ?start) \<le> day \<and> day \<le> Day (LocalTime tz ?start) + 6)"
    if "0 \<le> tz \<and> tz < msPerDay"
    using that week_by_day [of tz now day] by (simp only: Day_start)
  show ?thesis
    using midnight monday before recent end_eq sunday day_end on_sunday
      filtered_Weekly [of parse tz now receipts] by_day
    by blast
qed

lemma week_monday_examples:
  "week_monday manila monday_morning = 20395"
  "week_monday manila sunday_morning = 20388"
  unfolding week_monday_def WeekDay_def Day_def LocalTime_def manila_def
    monday_morning_def sunday_morning_def msPerDay_def
  by simp_all

lemma getWeekRange_examples:
  "getWeekRange manila monday_morning = (1762099200000, 1762703999999)"
  "getWeekRange manila sunday_morning = (1761494400000, 1762099199999)"
  unfolding getWeekRange_eq week_monday_examples
  by (simp_all add: UTC_def MakeDate_def MakeTime_def msPerDay_def manila_def)

lemma newDate_examples:
  "newDate iso_date (transaction_date (with_id toll n)) = Some 1762128000000"
  "newDate iso_date (transaction_date (with_id parking n)) = Some 1762041600000"
  "newDate iso_date (transaction_date (with_id coffee n)) = Some 1761955200000"
  using getTime_examples(1-3) [of n] by (simp_all add: getTime_def)

theorem getWeekRange_monday_to_sunday_witness:
  "WeekDay (LocalTime manila sunday_morning) = 0
   \<and> getWeekRange manila sunday_morning = (1761494400000, 1762099199999)
   \<and> Day (LocalTime manila 1761494400000) = Day (LocalTime manila sunday_morning) - 6
   \<and> WeekDay (LocalTime manila 1761494400000) = 1
   \<and> getWeekRange manila monday_morning = (1762099200000, 1762703999999)
   \<and> filtered iso_date manila monday_morning Weekly (savedReceipts example_state)
      = [with_id toll 1]
   \<and> Day (LocalTime manila 1762099200000) = 20395
   \<and> 1762099200000 \<le> MakeDate 20395 0 \<and> MakeDate 20401 0 \<le> 1762703999999
   \<and> \<not> 1762099200000 \<le> MakeDate 20394 0 \<and> \<not> MakeDate 20402 0 \<le> 1762703999999"
proof -
  have sunday: "WeekDay (LocalTime manila sunday_morning) = 0"
    unfolding WeekDay_def Day_def LocalTime_def manila_def sunday_morning_def msPerDay_def
    by simp
  have zone: "0 \<le> manila \<and> manila < msPerDay"
    by (simp add: manila_def msPerDay_def)
  have monday: "Day (LocalTime manila 1762099200000) = 20395"
    unfolding Day_def LocalTime_def manila_def msPerDay_def by simp
  have "filtered iso_date manila monday_morning Weekly (savedReceipts example_state)
      = [with_id toll 1]"
    using getWeekRange_monday_to_sunday
      [where tz = manila and now = monday_morning and parse = iso_date
         and receipts = "savedReceipts example_state" and day = 20395]
    by (simp add: getWeekRange_examples example_state_def newDate_examples)
  moreover have "1762099200000 \<le> MakeDate day 0 \<and> MakeDate day 0 \<le> 1762703999999
      \<longleftrightarrow> 20395 \<le> day \<and> day \<le> 20401" for day
    using zone getWeekRange_monday_to_sunday
      [where tz = manila and now = monday_morning and parse = iso_date and receipts = "[]"
         and day = day]
    by (simp add: getWeekRange_examples monday)
  ultimately show ?thesis
    using sunday monday getWeekRange_monday_to_sunday
      [where tz = manila and now = sunday_morning and parse = iso_date and receipts = "[]"
         and day = 0]
    by (simp add: getWeekRange_examples MakeDate_def msPerDay_def)
qed

section \<open>The summary by category\<close>

lemma set_first_occurrences: "set (first_occurrences xs) = set xs"
  by (induction xs rule: first_occurrences.induct) auto

lemma distinct_first_occurrences: "distinct (first_occurrences xs)"
  by (induction xs rule: first_occurrences.induct) (auto simp: set_first_occurrences)

lemma first_occurrences_snoc:
  "first_occurrences (xs @ [x]) =
     (if x \<in> set xs then first_occurrences xs else first_occurrences xs @ [x])"
proof (induction xs rule: first_occurrences.induct)
  case 1
  then show ?case by simp
next
  case (2 y ys)
  show ?case
  proof (cases "x = y")
    case True
    then show ?thesis by simp
  next
    case False
    then have "removeAll y (ys @ [x]) = removeAll y ys @ [x]" by simp
    with False 2 show ?thesis by simp
  qed
qed

lemma or_zero_eq: "or_zero x = (case x of None \<Rightarrow> 0 | Some v \<Rightarrow> v)"
  by (simp add: or_zero_def split: option.splits)

lemma obj_get_map:
  "obj_get (map (\<lambda>c. (c, f c)) cs) k = (if k \<in> set cs then Some (f k) else None)"
  by (induction cs) (auto simp: obj_get_def)

lemma obj_set_map_new:
  "k \<notin> set cs \<Longrightarrow> obj_set (map (\<lambda>c. (c, f c)) cs) k v = map (\<lambda>c. (c, f c)) cs @ [(k, v)]"
  by (induction cs) auto

lemma obj_set_map_old:
  "k \<in> set cs \<Longrightarrow> distinct cs \<Longrightarrow>
   obj_set (map (\<lambda>c. (c, f c)) cs) k v = map (\<lambda>c. (c, if c = k then v else f c)) cs"
proof (induction cs)
  case Nil
  then show ?case by simp
next
  case (Cons c cs)
  show ?case
  proof (cases "c = k")
    case True
    then have "k \<notin> set cs" using Cons.prems(2) by simp
    then have "map (\<lambda>c. (c, if c = k then v else f c)) cs = map (\<lambda>c. (c, f c)) cs"
      by (intro map_cong) auto
    with True show ?thesis by simp
  next
    case False
    with Cons show ?thesis by simp
  qed
qed

lemma category_total_snoc:
  "category_total c (rs @ [r]) =
     category_total c rs + (if category_key r = c then or_zero (total_amount r) else 0)"
  by (simp add: category_total_def or_zero_eq)

lemma category_total_none:
  "c \<notin> category_key ` set rs \<Longrightarrow> category_total c rs = 0"
proof -
  assume "c \<notin> category_key ` set rs"
  then have "filter (\<lambda>r. category_key r = c) rs = []"
    by (auto simp: filter_empty_conv)
  then show ?thesis by (simp add: category_total_def)
qed

lemma summary_step_totals:
  "summary_step (totals_by_category rs) r = totals_by_category (rs @ [r])"
proof -
  let ?k = "category_key r"
  let ?a = "or_zero (total_amount r)"
  let ?cs = "first_occurrences (map category_key rs)"
  let ?f = "\<lambda>c. category_total c rs"
  have set_cs: "set ?cs = category_key ` set rs"
    by (simp add: set_first_occurrences)
  show ?thesis
  proof (cases "?k \<in> set ?cs")
    case True
    have "summary_step (totals_by_category rs) r =
        map (\<lambda>c. (c, if c = ?k then ?f ?k + ?a else ?f c)) ?cs"
      using True
      by (simp add: summary_step_def totals_by_category_def Let_def obj_get_map
          obj_set_map_old distinct_first_occurrences or_zero_eq)
    also have "\<dots> = map (\<lambda>c. (c, category_total c (rs @ [r]))) ?cs"
      by (intro map_cong) (auto simp: category_total_snoc)
    also have "\<dots> = totals_by_category (rs @ [r])"
      using True by (simp add: totals_by_category_def first_occurrences_snoc set_cs)
    finally show ?thesis .
  next
    case False
    then have zero: "?f ?k = 0"
      by (simp add: set_cs category_total_none)
    have "summary_step (totals_by_category rs) r = map (\<lambda>c. (c, ?f c)) ?cs @ [(?k, ?a)]"
      using False
      by (simp add: summary_step_def totals_by_category_def Let_def obj_get_map
          obj_set_map_new or_zero_eq)
    also have "map (\<lambda>c. (c, ?f c)) ?cs = map (\<lambda>c. (c, category_total c (rs @ [r]))) ?cs"
      using False by (intro map_cong) (auto simp: category_total_snoc)
    also have "\<dots> @ [(?k, ?a)] = totals_by_category (rs @ [r])"
      using False zero
      by (simp add: totals_by_category_def first_occurrences_snoc set_cs category_total_snoc)
    finally show ?thesis .
  qed
qed

lemma foldl_summary_step: "foldl summary_step [] rs = totals_by_category rs"
proof (induction rs rule: rev_induct)
  case Nil
  then show ?case by (simp add: totals_by_category_def)
next
  case (snoc r rs)
  then show ?case by (simp add: summary_step_totals)
qed

lemma Object_entries_plain:
  "\<forall>(k, v) \<in> set obj. \<not> is_array_index k \<Longrightarrow> Object_entries obj = obj"
proof -
  assume plain: "\<forall>(k, v) \<in> set obj. \<not> is_array_index k"
  then have "filter (\<lambda>(k, v). is_array_index k) obj = []"
    by (auto simp: filter_empty_conv)
  moreover have "filter (\<lambda>(k, v). \<not> is_array_index k) obj = obj"
    using plain by (auto simp: filter_id_conv)
  ultimately show ?thesis by (simp add: Object_entries_def)
qed

text \<open>
  Why the keys have to be plain: a category that is written like an array index is
  enumerated before the others, whenever it was first seen.
\<close>

lemma is_array_index_examples:
  "is_array_index ''7''" "is_array_index ''2025''" "\<not> is_array_index ''07''"
  "\<not> is_array_index ''Food''" "\<not> is_array_index []" "\<not> is_array_index ''4294967295''"
  by (simp_all add: is_array_index_def digit_value_def show_nat_small show_nat_large
      digit_char_def)

lemma Object_entries_index_keys_first:
  "Object_entries [(''Food'', 5), (''7'', 1), (''Other'', 2), (''3'', 4)] =
     [(''3'', 4), (''7'', 1), (''Food'', 5), (''Other'', 2)]"
  by (simp add: Object_entries_def is_array_index_def array_index_def digit_value_def
      show_nat_small show_nat_large digit_char_def)

lemma summaryArray_plain:
  assumes "\<forall>r \<in> set rs. plain_key (category_key r)"
  shows "summaryArray rs = totals_by_category rs"
proof -
  have "\<forall>(k, v) \<in> set (totals_by_category rs). \<not> is_array_index k"
    using assms by (auto simp: totals_by_category_def set_first_occurrences plain_key_def)
  then show ?thesis
    by (simp add: summaryArray_def foldl_summary_step Object_entries_plain)
qed

lemma set_filtered: "set (filtered parse tz now activeFilter receipts) \<subseteq> set receipts"
  by (cases activeFilter) (auto simp: filtered_def Let_def case_prod_beta)

lemma filteredData_summary:
  assumes "activeFilter \<noteq> All" and "\<forall>r \<in> set receipts. plain_key (category_key r)"
  shows "filteredData parse tz now activeFilter receipts =
     Summary (totals_by_category (filtered parse tz now activeFilter receipts))"
proof -
  have "\<forall>r \<in> set (filtered parse tz now activeFilter receipts). plain_key (category_key r)"
    using assms(2) set_filtered [of parse tz now activeFilter receipts] by blast
  then show ?thesis
    using assms(1) by (simp add: filteredData_def Let_def summaryArray_plain)
qed

lemma categories_plain: "c \<in> set categories \<Longrightarrow> plain_key c"
  by (auto simp: categories_def plain_key_def is_array_index_def digit_value_def
      Object_prototype_keys_def)

lemma Uncategorized_plain: "plain_key ''Uncategorized''"
  by (simp add: plain_key_def is_array_index_def digit_value_def Object_prototype_keys_def)


text \<open>
  C3, as the code has it. The categories are plain object keys: each of the nine
  categories is one, and so is \<^verbatim>\<open>Uncategorized\<close>, the key of a record without category.
  Then, for every selector other than \<^verbatim>\<open>All\<close>, the output is one pair (category, total)
  for each distinct category of the filtered records, the total being the sum of the
  amounts of that category with an absent amount counted as zero, and the pairs stand
  in the order in which their categories first occur in the filtered list, which is the
  order of the stored list: by date, latest first, and among equal dates the record saved
  last first. Under \<^verbatim>\<open>All\<close> the output is the stored list itself.
\<close>

theorem summary_by_category_in_stored_order:
  "(activeFilter \<noteq> All \<and> (\<forall>r \<in> set receipts. plain_key (category_key r)) \<longrightarrow>
      filteredData parse tz now activeFilter receipts =
        Summary (map (\<lambda>c. (c, category_total c (filtered parse tz now activeFilter receipts)))
                  (first_occurrences
                    (map category_key (filtered parse tz now activeFilter receipts)))))
   \<and> distinct (first_occurrences (map category_key (filtered parse tz now activeFilter receipts)))
   \<and> set (first_occurrences (map category_key (filtered parse tz now activeFilter receipts)))
       = category_key ` set (filtered parse tz now activeFilter receipts)
   \<and> (\<forall>c \<in> set categories. plain_key c) \<and> plain_key ''Uncategorized''
   \<and> filteredData parse tz now All receipts = Records receipts"
proof -
  have "filteredData parse tz now All receipts = Records receipts"
    by (simp add: filteredData_def filtered_def)
  then show ?thesis
    using filteredData_summary [of activeFilter receipts parse tz now]
    by (auto simp: totals_by_category_def distinct_first_occurrences set_first_occurrences
        categories_plain Uncategorized_plain)
qed

lemma scenario_records:
  "getTime iso_date (with_id parking50 n) = Some 1762128000000"
  "getTime iso_date (with_id (coffee200 ''2025-11-03'') n) = Some 1762128000000"
  "getTime iso_date (with_id (coffee200 ''2025-11-01'') n) = Some 1761955200000"
  "\<not> falsy (transaction_name parking50)" "\<not> falsy (transaction_date parking50)"
  "\<not> falsy (category parking50)" "total_amount parking50 = Some 50"
  "\<not> falsy (transaction_name (coffee200 ''2025-11-03''))"
  "\<not> falsy (transaction_date (coffee200 ''2025-11-03''))"
  "\<not> falsy (category (coffee200 ''2025-11-03''))"
  "total_amount (coffee200 d) = Some 200"
  "\<not> falsy (transaction_name (coffee200 ''2025-11-01''))"
  "\<not> falsy (transaction_date (coffee200 ''2025-11-01''))"
  "\<not> falsy (category (coffee200 ''2025-11-01''))"
  by (simp_all add: getTime_with_id newDate_def parking50_def coffee200_def example_receipt_def
      iso_date_examples falsy_def)

lemma scenario_saved:
  "savedReceipts (saves iso_date (scenario ''2025-11-03'') initial_state) =
     [with_id (coffee200 ''2025-11-03'') 3, with_id toll 2, with_id parking50 1]"
  "savedReceipts (saves iso_date (scenario ''2025-11-01'') initial_state) =
     [with_id toll 2, with_id parking50 1, with_id (coffee200 ''2025-11-01'') 3]"
  by (simp_all add: saves_def scenario_def handleSaveReceipt_complete complete_examples
      scenario_records initial_state_def by_date_desc_def getTime_examples)

lemma month_start_example:
  "newDateYMD manila (getFullYear manila monday_morning) (getMonth manila monday_morning) 1
     = 1761926400000"
  by code_simp

lemma scenario_keys:
  "category_key (with_id parking50 n) = ''Transportation''"
  "category_key (with_id toll n) = ''Transportation''"
  "category_key (with_id (coffee200 d) n) = ''Food & Drink''"
  "total_amount (with_id parking50 n) = Some 50"
  "total_amount (with_id toll n) = Some 100"
  "total_amount (with_id (coffee200 d) n) = Some 200"
  by (simp_all add: category_key_def or_else_def with_id_def parking50_def toll_def
      coffee200_def example_receipt_def)

lemma scenario_this_month:
  "filtered iso_date manila monday_morning Monthly
      [with_id (coffee200 ''2025-11-03'') 3, with_id toll 2, with_id parking50 1]
    = [with_id (coffee200 ''2025-11-03'') 3, with_id toll 2, with_id parking50 1]"
  "filtered iso_date manila monday_morning Monthly
      [with_id toll 2, with_id parking50 1, with_id (coffee200 ''2025-11-01'') 3]
    = [with_id toll 2, with_id parking50 1, with_id (coffee200 ''2025-11-01'') 3]"
  using scenario_records(1-3) [of 1] scenario_records(1-3) [of 3] getTime_examples(1) [of 2]
  by (simp_all add: filtered_def month_start_example date_ge_def getTime_def)

lemma scenario_plain:
  "plain_key ''Transportation''" "plain_key ''Food & Drink''"
  by (simp_all add: categories_plain categories_def)

text \<open>
  The scenario with the Food & Drink record dated two days before the others: it is last
  in the stored list, and the pairs are those of the specification.
\<close>

theorem summary_by_category_in_stored_order_witness:
  "filteredData iso_date manila monday_morning Monthly
     (savedReceipts (saves iso_date (scenario ''2025-11-01'') initial_state))
   = Summary [(''Transportation'', 150), (''Food & Drink'', 200)]"
  unfolding scenario_saved
  using summary_by_category_in_stored_order
    [where activeFilter = Monthly and parse = iso_date and tz = manila and now = monday_morning
       and receipts = "[with_id toll 2, with_id parking50 1, with_id (coffee200 ''2025-11-01'') 3]"]
  by (simp add: scenario_this_month scenario_keys scenario_plain category_total_def)

text \<open>
  C3 as stated fails in its scenario: with the three records dated the same day and saved
  in the order given, the record saved last is first in the stored list, and the pairs
  come out as Food & Drink, then Transportation.
\<close>

theorem summary_scenario_same_day_counterexample:
  "filteredData iso_date manila monday_morning Monthly
     (savedReceipts (saves iso_date (scenario ''2025-11-03'') initial_state))
   = Summary [(''Food & Drink'', 200), (''Transportation'', 150)]
   \<and> filteredData iso_date manila monday_morning Monthly
     (savedReceipts (saves iso_date (scenario ''2025-11-03'') initial_state))
   \<noteq> Summary [(''Transportation'', 150), (''Food & Drink'', 200)]"
proof -
  have "filteredData iso_date manila monday_morning Monthly
     (savedReceipts (saves iso_date (scenario ''2025-11-03'') initial_state))
   = Summary [(''Food & Drink'', 200), (''Transportation'', 150)]"
    unfolding scenario_saved
    by (subst filteredData_summary)
      (simp_all add: scenario_this_month scenario_keys scenario_plain totals_by_category_def
        category_total_def)
  then show ?thesis by simp
qed

section \<open>Deleting a record\<close>

text \<open>
  C10. For every record list and every id, \<^verbatim>\<open>handleDeleteReceipt\<close> removes exactly the
  records whose id equals that value, however many there are: the new list is the old one
  without them, so every other record stays, as often as before and in the same relative
  order (the new list is a subsequence of the old one), and nothing else of the state
  changes. When no record has that id the state is unchanged.
\<close>

theorem handleDeleteReceipt_removes_exactly_id:
  "savedReceipts (handleDeleteReceipt i st) = filter (\<lambda>r. id' r \<noteq> i) (savedReceipts st)
   \<and> set (savedReceipts (handleDeleteReceipt i st)) = {r \<in> set (savedReceipts st). id' r \<noteq> i}
   \<and> (\<forall>r. count (mset (savedReceipts (handleDeleteReceipt i st))) r =
          (if id' r = i then 0 else count (mset (savedReceipts st)) r))
   \<and> subseq (savedReceipts (handleDeleteReceipt i st)) (savedReceipts st)
   \<and> ((\<forall>r \<in> set (savedReceipts st). id' r \<noteq> i) \<longrightarrow> handleDeleteReceipt i st = st)
   \<and> receiptData (handleDeleteReceipt i st) = receiptData st
   \<and> error (handleDeleteReceipt i st) = error st"
proof -
  let ?old = "savedReceipts st"
  have new: "savedReceipts (handleDeleteReceipt i st) = filter (\<lambda>r. id' r \<noteq> i) ?old"
    by (simp add: handleDeleteReceipt_def)
  have same: "filter (\<lambda>r. id' r \<noteq> i) ?old = ?old" if "\<forall>r \<in> set ?old. id' r \<noteq> i"
    using that by (simp add: filter_id_conv)
  have "handleDeleteReceipt i st = st" if "\<forall>r \<in> set ?old. id' r \<noteq> i"
    using same [OF that] by (simp add: handleDeleteReceipt_def)
  moreover have "\<forall>r. count (mset (filter (\<lambda>r. id' r \<noteq> i) ?old)) r =
      (if id' r = i then 0 else count (mset ?old) r)"
    by (simp add: count_mset)
  moreover have "receiptData (handleDeleteReceipt i st) = receiptData st"
    and "error (handleDeleteReceipt i st) = error st"
    by (simp_all add: handleDeleteReceipt_def)
  ultimately show ?thesis
    unfolding new by auto
qed

theorem handleDeleteReceipt_removes_exactly_id_witness:
  "savedReceipts (handleDeleteReceipt 1 example_state) = [with_id parking 2]
   \<and> handleDeleteReceipt 7 example_state = example_state"
proof -
  have ids: "id' (with_id toll 1) = 1" "id' (with_id parking 2) = 2" "id' (with_id coffee 1) = 1"
    by (simp_all add: id_with_id)
  have "savedReceipts (handleDeleteReceipt 1 example_state) = [with_id parking 2]"
    using handleDeleteReceipt_removes_exactly_id [where i = 1 and st = example_state]
    by (simp add: example_state_def ids)
  moreover have "handleDeleteReceipt 7 example_state = example_state"
    using handleDeleteReceipt_removes_exactly_id [where i = 7 and st = example_state]
    by (simp add: example_state_def ids)
  ultimately show ?thesis by simp
qed

section \<open>Saving a record\<close>

text \<open>
  C1. A field is absent when it is \<^verbatim>\<open>null\<close>; for the three strings the code tests
  truthiness, so an empty string counts as absent too (see C9). A save attempt where
  \<^verbatim>\<open>transaction_name\<close>, \<^verbatim>\<open>total_amount\<close>, \<^verbatim>\<open>transaction_date\<close> or \<^verbatim>\<open>category\<close> is absent
  sets the error to the incomplete-data message and changes nothing else, so no record
  is added and the saved list is the same. When all four are present, the saved list is
  the old list with one more element, the record with the id \<open>now\<close> (sorted by date),
  and the error is as before.
\<close>

theorem handleSaveReceipt_rejects_incomplete:
  "(falsy (transaction_name data) \<or> total_amount data = None
      \<or> falsy (transaction_date data) \<or> falsy (category data)
    \<longrightarrow> handleSaveReceipt parse now data st = st\<lparr>error := Some incomplete_message\<rparr>
       \<and> error (handleSaveReceipt parse now data st) = Some ''Cannot save incomplete receipt data.''
       \<and> savedReceipts (handleSaveReceipt parse now data st) = savedReceipts st)
   \<and> (\<not> falsy (transaction_name data) \<and> total_amount data \<noteq> None
      \<and> \<not> falsy (transaction_date data) \<and> \<not> falsy (category data)
    \<longrightarrow> savedReceipts (handleSaveReceipt parse now data st) =
          js_sort (by_date_desc parse) (with_id data now # savedReceipts st)
       \<and> mset (savedReceipts (handleSaveReceipt parse now data st)) =
          add_mset (with_id data now) (mset (savedReceipts st))
       \<and> id' (with_id data now) = now
       \<and> ReceiptData.truncate (with_id data now) = data
       \<and> error (handleSaveReceipt parse now data st) = error st)"
proof (cases "falsy (transaction_name data) \<or> total_amount data = None
      \<or> falsy (transaction_date data) \<or> falsy (category data)")
  case True
  then have "handleSaveReceipt parse now data st = st\<lparr>error := Some incomplete_message\<rparr>"
    by (rule handleSaveReceipt_incomplete)
  with True show ?thesis by (simp add: incomplete_message_def)
next
  case False
  then obtain a where "total_amount data = Some a" by auto
  with False have "handleSaveReceipt parse now data st =
      st\<lparr>savedReceipts := js_sort (by_date_desc parse) (with_id data now # savedReceipts st),
         receiptData := None\<rparr>"
    by (simp add: handleSaveReceipt_complete)
  then have "savedReceipts (handleSaveReceipt parse now data st) =
        js_sort (by_date_desc parse) (with_id data now # savedReceipts st)"
    and "error (handleSaveReceipt parse now data st) = error st"
    by simp_all
  moreover have "mset (js_sort (by_date_desc parse) (with_id data now # savedReceipts st)) =
      add_mset (with_id data now) (mset (savedReceipts st))"
    by (simp only: mset_js_sort mset.simps)
  ultimately show ?thesis
    using False truncate_with_id [of data now] id_with_id [of data now] by auto
qed

text \<open>
  The scenario of the specification: an entry without a category is refused with the
  message and the list keeps its three records; the same entry with its category is
  placed among them by its date.
\<close>

theorem handleSaveReceipt_rejects_incomplete_witness:
  "handleSaveReceipt iso_date 5 (lunch\<lparr>category := None\<rparr>) example_state
     = example_state\<lparr>error := Some ''Cannot save incomplete receipt data.''\<rparr>
   \<and> savedReceipts (handleSaveReceipt iso_date 5 (lunch\<lparr>category := None\<rparr>) example_state)
     = [with_id toll 1, with_id parking 2, with_id coffee 1]
   \<and> savedReceipts (handleSaveReceipt iso_date 5 lunch example_state)
     = [with_id toll 1, with_id lunch 5, with_id parking 2, with_id coffee 1]
   \<and> id' (with_id lunch 5) = 5"
proof -
  have "falsy (category (lunch\<lparr>category := None\<rparr>))"
    by (simp add: falsy_def)
  then have "handleSaveReceipt iso_date 5 (lunch\<lparr>category := None\<rparr>) example_state
      = example_state\<lparr>error := Some incomplete_message\<rparr>
    \<and> savedReceipts (handleSaveReceipt iso_date 5 (lunch\<lparr>category := None\<rparr>) example_state)
      = savedReceipts example_state"
    using handleSaveReceipt_rejects_incomplete
      [where data = "lunch\<lparr>category := None\<rparr>" and parse = iso_date and now = 5
         and st = example_state]
    by simp
  moreover have "savedReceipts example_state = [with_id toll 1, with_id parking 2, with_id coffee 1]"
    by (simp add: example_state_def)
  moreover have "id' (with_id lunch 5) = 5"
    using handleSaveReceipt_rejects_incomplete
      [where data = lunch and parse = iso_date and now = 5 and st = example_state]
    by (simp add: complete_examples)
  ultimately show ?thesis
    by (simp add: save_lunch incomplete_message_def)
qed

text \<open>
  C9. The amount is tested with \<^verbatim>\<open>=== null\<close>, not by truthiness: a record whose amount
  is exactly 0, with name, date and category present and not empty, is accepted and is in
  the list afterwards, which has one record more. An empty string for the name, the date
  or the category is refused like an absent one, and the list stays as it is.
\<close>

theorem handleSaveReceipt_zero_amount_and_empty_strings:
  "(total_amount data = Some 0 \<and> \<not> falsy (transaction_name data)
      \<and> \<not> falsy (transaction_date data) \<and> \<not> falsy (category data)
    \<longrightarrow> with_id data now \<in> set (savedReceipts (handleSaveReceipt parse now data st))
       \<and> length (savedReceipts (handleSaveReceipt parse now data st)) =
          Suc (length (savedReceipts st))
       \<and> error (handleSaveReceipt parse now data st) = error st)
   \<and> (transaction_name data = Some [] \<or> transaction_date data = Some []
      \<or> category data = Some []
    \<longrightarrow> handleSaveReceipt parse now data st = st\<lparr>error := Some incomplete_message\<rparr>
       \<and> savedReceipts (handleSaveReceipt parse now data st) = savedReceipts st)"
proof -
  have "with_id data now \<in> set (js_sort (by_date_desc parse) (with_id data now # savedReceipts st))"
    unfolding set_js_sort by simp
  moreover have "length (js_sort (by_date_desc parse) (with_id data now # savedReceipts st)) =
      Suc (length (savedReceipts st))"
    unfolding length_js_sort by simp
  ultimately show ?thesis
    by (auto simp: handleSaveReceipt_def falsy_def)
qed

theorem handleSaveReceipt_zero_amount_and_empty_strings_witness:
  "total_amount free_sample = Some 0
   \<and> savedReceipts (handleSaveReceipt iso_date 5 free_sample example_state)
     = [with_id toll 1, with_id free_sample 5, with_id parking 2, with_id coffee 1]
   \<and> length (savedReceipts (handleSaveReceipt iso_date 5 free_sample example_state)) = 4
   \<and> handleSaveReceipt iso_date 5 (free_sample\<lparr>transaction_name := Some ''''\<rparr>) example_state
     = example_state\<lparr>error := Some incomplete_message\<rparr>"
proof -
  have "length (savedReceipts (handleSaveReceipt iso_date 5 free_sample example_state)) =
      Suc (length (savedReceipts example_state))"
    using handleSaveReceipt_zero_amount_and_empty_strings
      [where data = free_sample and parse = iso_date and now = 5 and st = example_state]
    by (simp add: complete_examples)
  moreover have "handleSaveReceipt iso_date 5 (free_sample\<lparr>transaction_name := Some ''''\<rparr>) example_state
     = example_state\<lparr>error := Some incomplete_message\<rparr>"
    using handleSaveReceipt_zero_amount_and_empty_strings
      [where data = "free_sample\<lparr>transaction_name := Some ''''\<rparr>" and parse = iso_date
         and now = 5 and st = example_state]
    by simp
  moreover have "length (savedReceipts example_state) = 3"
    by (simp add: example_state_def)
  ultimately show ?thesis
    by (simp add: save_free_sample complete_examples)
qed

section \<open>The saved list is ordered by date\<close>









section \<open>Receipts of another year\<close>

text \<open>
  C8. For every extracted record with a date whose year, as the handler computes it
  (the local year of the parsed date, \<^verbatim>\<open>NaN\<close> when the string is no date), differs from
  the current year, the image handler sets the error to the message that names that year
  and the current one, leaves \<^verbatim>\<open>receiptData\<close> empty, so that the record is not shown for
  review and cannot be saved, and leaves the saved list as it was.
\<close>

theorem handleImageSelect_rejects_other_year:
  "transaction_date data = Some d \<and> d \<noteq> []
     \<and> map_option (getFullYear tz) (parse d) \<noteq> Some (getFullYear tz now) \<longrightarrow>
   error (handleImageSelect parse tz now (Inr data) st) =
     Some (''This receipt is from '' @ number_text (map_option (getFullYear tz) (parse d))
           @ ''. Only transactions for the current year ('' @ show_int (getFullYear tz now)
           @ '') are allowed.'')
   \<and> receiptData (handleImageSelect parse tz now (Inr data) st) = None
   \<and> savedReceipts (handleImageSelect parse tz now (Inr data) st) = savedReceipts st
   \<and> isLoading (handleImageSelect parse tz now (Inr data) st) = False"
  by (simp add: handleImageSelect_def Let_def falsy_def newDate_def year_message_def)

lemma iso_date_2024_11_03: "iso_date ''2024-11-03'' = Some 1730592000000"
  by (simp add: iso_date_def digit_value_def MakeDate_def days_from_civil_def msPerDay_def
      DaysInMonth_def)

lemma getFullYear_examples:
  "getFullYear manila 1730592000000 = 2024"
  "getFullYear manila monday_morning = 2025"
  by code_simp+

lemma show_int_examples: "show_int 2024 = ''2024''" "show_int 2025 = ''2025''"
  by (simp_all add: show_int_def show_nat_small show_nat_large digit_char_def)

theorem handleImageSelect_rejects_other_year_witness:
  "handleImageSelect iso_date manila monday_morning
      (Inr (toll\<lparr>transaction_date := Some ''2024-11-03''\<rparr>)) example_state
    = example_state\<lparr>error := Some
        ''This receipt is from 2024. Only transactions for the current year (2025) are allowed.''\<rparr>"
proof -
  let ?st = "handleImageSelect iso_date manila monday_morning
      (Inr (toll\<lparr>transaction_date := Some ''2024-11-03''\<rparr>)) example_state"
  have "error ?st = Some
        ''This receipt is from 2024. Only transactions for the current year (2025) are allowed.''
      \<and> receiptData ?st = None \<and> savedReceipts ?st = savedReceipts example_state
      \<and> isLoading ?st = False"
    using handleImageSelect_rejects_other_year
      [where data = "toll\<lparr>transaction_date := Some ''2024-11-03''\<rparr>" and d = "''2024-11-03''"
         and tz = manila and parse = iso_date and now = monday_morning and st = example_state]
    by (simp add: iso_date_2024_11_03 getFullYear_examples show_int_examples number_text_def)
  moreover have "manualEntryData ?st = manualEntryData example_state"
    and "showCamera ?st = showCamera example_state"
    by (simp_all add: handleImageSelect_def Let_def falsy_def)
  ultimately show ?thesis
    by (simp add: example_state_def initial_state_def)
qed

end
